theory Spec2Isabelle
  imports Complex_Main
begin

section \<open>The contract query gateway of \<^verbatim>\<open>api_pinecone.py\<close>\<close>

text \<open>
  The module keeps three globals (\<^verbatim>\<open>pc\<close>, \<^verbatim>\<open>index\<close>, \<^verbatim>\<open>connection_attempts\<close>) and talks
  to two services: the vector store (client construction, opening the index, the
  statistics probe, the similarity query) and the embedding provider. The services are
  modelled as oracles: the answer to the \<open>i\<close>-th call of one kind is a function of \<open>i\<close>
  and of the arguments of the call, an exception being \<open>Inl\<close> of its text
  (\<^verbatim>\<open>str(e)\<close>). Every external call and every \<^verbatim>\<open>time.sleep\<close> is appended to a trace
  kept in the state, so that the calls a run has made can be counted and read in order.
\<close>

subsection \<open>Data\<close>

type_synonym handle = nat
type_synonym client = nat
type_synonym vector = "real list"

text \<open>A match of a query result: its similarity and its metadata dictionary (which the
  client library leaves \<^verbatim>\<open>None\<close> when the vector has none).\<close>

record scored_vector =
  match_score :: real
  match_metadata :: "(string \<times> string) list option"

text \<open>\<^verbatim>\<open>ContratoResponse\<close> and \<^verbatim>\<open>SearchResponse\<close>.\<close>

record ContratoResponse =
  arquivo :: string
  texto :: string
  score :: real

record SearchResponse =
  resultados :: "ContratoResponse list"
  total :: int

text \<open>What an operation raises: \<^verbatim>\<open>HTTPException(status_code, detail)\<close>, or the
  interpreter's \<^verbatim>\<open>RecursionError\<close>.\<close>

datatype exn = HTTPException int string | RecursionError

datatype event =
    is_client: EvClient bool
  | is_open: EvIndex "handle option"
  | is_stats: EvStats handle bool
  | is_query: EvQuery handle vector int bool
  | is_embed: EvEmbed string bool
  | is_sleep: EvSleep int

text \<open>The services. \<open>describe_index_stats\<close> answers with the value of the key
  \<^verbatim>\<open>total_vector_count\<close> of the statistics, \<open>None\<close> when the key is missing.\<close>

record world =
  Pinecone :: "nat \<Rightarrow> string + client"
  Index :: "nat \<Rightarrow> client \<Rightarrow> string + handle"
  describe_index_stats :: "nat \<Rightarrow> handle \<Rightarrow> string + int option"
  query :: "nat \<Rightarrow> handle \<Rightarrow> vector \<Rightarrow> int \<Rightarrow> string + scored_vector list"
  embeddings_create :: "nat \<Rightarrow> string \<Rightarrow> string + vector"

text \<open>The module globals, and the trace.\<close>

record gstate =
  pc :: "client option"
  index :: "handle option"
  connection_attempts :: int
  trace :: "event list"

definition MAX_RECONNECT_ATTEMPTS :: int where
  "MAX_RECONNECT_ATTEMPTS = 3"

text \<open>The state of the module when it is loaded, before line 68 runs.\<close>

definition initial :: gstate where
  "initial = \<lparr>pc = None, index = None, connection_attempts = 0, trace = []\<rparr>"

definition calls :: "(event \<Rightarrow> bool) \<Rightarrow> gstate \<Rightarrow> nat" where
  "calls P s = length (filter P (trace s))"

definition emit :: "event \<Rightarrow> gstate \<Rightarrow> gstate" where
  "emit e s = s\<lparr>trace := trace s @ [e]\<rparr>"

subsection \<open>\<^verbatim>\<open>conectar_pinecone\<close>\<close>

text \<open>The \<^verbatim>\<open>try\<close> block of lines 38 to 52, up to the statistics probe: each of the three
  calls may raise, and each assignment to a global happens as soon as its right-hand side
  has returned.\<close>

definition connect_try :: "world \<Rightarrow> gstate \<Rightarrow> (string + int option) \<times> gstate" where
  "connect_try w s =
     (case Pinecone w (calls is_client s) of
        Inl e \<Rightarrow> (Inl e, emit (EvClient False) s)
      | Inr c \<Rightarrow>
          (let s1 = (emit (EvClient True) s)\<lparr>pc := Some c\<rparr> in
           case Index w (calls is_open s1) c of
             Inl e \<Rightarrow> (Inl e, emit (EvIndex None) s1)
           | Inr h \<Rightarrow>
               (let s2 = (emit (EvIndex (Some h)) s1)\<lparr>index := Some h\<rparr> in
                case describe_index_stats w (calls is_stats s2) h of
                  Inl e \<Rightarrow> (Inl e, emit (EvStats h False) s2)
                | Inr st \<Rightarrow> (Inr st, emit (EvStats h True) s2))))"

function conectar_pinecone :: "world \<Rightarrow> gstate \<Rightarrow> bool \<times> gstate" where
  "conectar_pinecone w s =
     (case connect_try w s of
        (Inr st, s1) \<Rightarrow> (True, s1\<lparr>connection_attempts := 0\<rparr>)
      | (Inl e, s1) \<Rightarrow>
          (let s2 = s1\<lparr>connection_attempts := connection_attempts s1 + 1\<rparr> in
           if connection_attempts s2 < MAX_RECONNECT_ATTEMPTS
           then conectar_pinecone w (emit (EvSleep 2) s2)
           else (False, s2)))"
  by pat_completeness auto
termination
proof (relation "measure (\<lambda>(w, s). nat (MAX_RECONNECT_ATTEMPTS - connection_attempts s))")
  show "wf (measure (\<lambda>(w, s). nat (MAX_RECONNECT_ATTEMPTS - connection_attempts s)))"
    by simp
next
  fix w s x1 x2 e s2
  assume a: "(x1, x2) = connect_try w s" "x1 = Inl e"
    "s2 = x2\<lparr>connection_attempts := connection_attempts x2 + 1\<rparr>"
    "connection_attempts s2 < MAX_RECONNECT_ATTEMPTS"
  from a(1) have "connection_attempts x2 = connection_attempts s"
    by (auto simp: connect_try_def emit_def Let_def split: sum.splits)
  with a show "((w, emit (EvSleep 2) s2), (w, s))
      \<in> measure (\<lambda>(w, s). nat (MAX_RECONNECT_ATTEMPTS - connection_attempts s))"
    by (simp add: emit_def)
qed

subsection \<open>Calls through the globals\<close>

text \<open>The text of the \<^verbatim>\<open>AttributeError\<close> that a method call on \<^verbatim>\<open>None\<close> raises.\<close>

definition attribute_error :: "string \<Rightarrow> string" where
  "attribute_error a =
     [CHR 0x27] @ ''NoneType'' @ [CHR 0x27] @ '' object has no attribute ''
       @ [CHR 0x27] @ a @ [CHR 0x27]"

text \<open>\<^verbatim>\<open>index.describe_index_stats()\<close> and \<^verbatim>\<open>index.query(vector=v, top_k=k,
  include_metadata=True)\<close> on the global \<^verbatim>\<open>index\<close>.\<close>

definition index_stats :: "world \<Rightarrow> gstate \<Rightarrow> (string + int option) \<times> gstate" where
  "index_stats w s =
     (case index s of
        None \<Rightarrow> (Inl (attribute_error ''describe_index_stats''), s)
      | Some h \<Rightarrow>
          (case describe_index_stats w (calls is_stats s) h of
             Inl e \<Rightarrow> (Inl e, emit (EvStats h False) s)
           | Inr st \<Rightarrow> (Inr st, emit (EvStats h True) s)))"

definition index_query ::
  "world \<Rightarrow> vector \<Rightarrow> int \<Rightarrow> gstate \<Rightarrow> (string + scored_vector list) \<times> gstate" where
  "index_query w v k s =
     (case index s of
        None \<Rightarrow> (Inl (attribute_error ''query''), s)
      | Some h \<Rightarrow>
          (case query w (calls is_query s) h v k of
             Inl e \<Rightarrow> (Inl e, emit (EvQuery h v k False) s)
           | Inr ms \<Rightarrow> (Inr ms, emit (EvQuery h v k True) s)))"

definition gerar_embedding :: "world \<Rightarrow> string \<Rightarrow> gstate \<Rightarrow> (string + vector) \<times> gstate" where
  "gerar_embedding w texto_in s =
     (case embeddings_create w (calls is_embed s) texto_in of
        Inl e \<Rightarrow> (Inl e, emit (EvEmbed texto_in False) s)
      | Inr v \<Rightarrow> (Inr v, emit (EvEmbed texto_in True) s))"

text \<open>\<^verbatim>\<open>[0.0] * 1024\<close>.\<close>

definition dummy_vector :: vector where
  "dummy_vector = replicate 1024 0"

text \<open>\<^verbatim>\<open>d.get(k, default)\<close> on a dictionary.\<close>

definition dict_get :: "(string \<times> string) list \<Rightarrow> string \<Rightarrow> string \<Rightarrow> string" where
  "dict_get d k dflt = (case map_of d k of None \<Rightarrow> dflt | Some v \<Rightarrow> v)"

text \<open>The loop that builds \<^verbatim>\<open>resultados\<close> (lines 202 to 208 and 256 to 262): a match
  whose metadata is \<^verbatim>\<open>None\<close> raises.\<close>

fun to_contratos :: "scored_vector list \<Rightarrow> string + ContratoResponse list" where
  "to_contratos [] = Inr []"
| "to_contratos (m # ms) =
     (case match_metadata m of
        None \<Rightarrow> Inl (attribute_error ''get'')
      | Some md \<Rightarrow>
          (case to_contratos ms of
             Inl e \<Rightarrow> Inl e
           | Inr rs \<Rightarrow>
               Inr (\<lparr>arquivo = dict_get md ''arquivo'' [], texto = dict_get md ''texto'' [],
                     score = match_score m\<rparr> # rs)))"

text \<open>Python's \<^verbatim>\<open>xs[lo:hi]\<close> on integers of either sign.\<close>

definition py_slice :: "'a list \<Rightarrow> int \<Rightarrow> int \<Rightarrow> 'a list" where
  "py_slice xs lo hi =
     (let n = int (length xs);
          l = (if lo < 0 then max (lo + n) 0 else min lo n);
          h = (if hi < 0 then max (hi + n) 0 else min hi n)
      in take (nat (h - l)) (drop (nat l) xs))"

text \<open>The loop of lines 316 to 320. The Python set \<^verbatim>\<open>arquivos\<close> is a list without
  repetition; the order in which \<^verbatim>\<open>list(arquivos)\<close> enumerates it is not fixed by Python,
  and nothing below depends on it.\<close>

fun collect_arquivos :: "scored_vector list \<Rightarrow> string list \<Rightarrow> string + string list" where
  "collect_arquivos [] arquivos = Inr arquivos"
| "collect_arquivos (m # ms) arquivos =
     (case match_metadata m of
        None \<Rightarrow> Inl (attribute_error ''get'')
      | Some md \<Rightarrow>
          (case map_of md ''arquivo'' of
             None \<Rightarrow> collect_arquivos ms arquivos
           | Some a \<Rightarrow>
               (if a \<noteq> [] then collect_arquivos ms (List.insert a arquivos)
                else collect_arquivos ms arquivos)))"

subsection \<open>The three operations\<close>

definition detail_400 :: string where
  "detail_400 = ''A consulta n'' @ [CHR 0xC3, CHR 0xA3] @ ''o pode estar vazia''"

definition detail_503 :: string where
  "detail_503 =
     ''Servi'' @ [CHR 0xC3, CHR 0xA7] @ ''o temporariamente indispon'' @ [CHR 0xC3, CHR 0xAD]
       @ ''vel. N'' @ [CHR 0xC3, CHR 0xA3] @ ''o foi poss'' @ [CHR 0xC3, CHR 0xAD]
       @ ''vel conectar ao Pinecone.''"

text \<open>The guard \<^verbatim>\<open>not index and not conectar_pinecone()\<close>: \<^verbatim>\<open>and\<close> does not evaluate
  its right operand when \<^verbatim>\<open>index\<close> is set.\<close>

definition sem_conexao :: "world \<Rightarrow> gstate \<Rightarrow> bool \<times> gstate" where
  "sem_conexao w s =
     (if index s = None
      then (case conectar_pinecone w s of (ok, s1) \<Rightarrow> (\<not> ok, s1))
      else (False, s))"

text \<open>The \<^verbatim>\<open>try\<close> blocks of the three operations.\<close>

definition listar_contratos_try ::
  "world \<Rightarrow> int \<Rightarrow> int \<Rightarrow> gstate \<Rightarrow> (string + SearchResponse) \<times> gstate" where
  "listar_contratos_try w skip limit s =
     (case index_stats w s of
        (Inl e, s1) \<Rightarrow> (Inl e, s1)
      | (Inr st, s1) \<Rightarrow>
          (let tot = (case st of None \<Rightarrow> 0 | Some t \<Rightarrow> t) in
           case index_query w dummy_vector (skip + limit) s1 of
             (Inl e, s2) \<Rightarrow> (Inl e, s2)
           | (Inr ms, s2) \<Rightarrow>
               (let matches = (if ms \<noteq> [] then py_slice ms skip (skip + limit) else []) in
                case to_contratos matches of
                  Inl e \<Rightarrow> (Inl e, s2)
                | Inr rs \<Rightarrow> (Inr \<lparr>resultados = rs, total = tot\<rparr>, s2))))"

definition buscar_contratos_try ::
  "world \<Rightarrow> string \<Rightarrow> int \<Rightarrow> gstate \<Rightarrow> (string + SearchResponse) \<times> gstate" where
  "buscar_contratos_try w q limit s =
     (case gerar_embedding w q s of
        (Inl e, s1) \<Rightarrow> (Inl e, s1)
      | (Inr query_embedding, s1) \<Rightarrow>
          (case index_query w query_embedding limit s1 of
             (Inl e, s2) \<Rightarrow> (Inl e, s2)
           | (Inr ms, s2) \<Rightarrow>
               (case to_contratos ms of
                  Inl e \<Rightarrow> (Inl e, s2)
                | Inr rs \<Rightarrow> (Inr \<lparr>resultados = rs, total = int (length rs)\<rparr>, s2))))"

definition listar_arquivos_try :: "world \<Rightarrow> gstate \<Rightarrow> (string + string list) \<times> gstate" where
  "listar_arquivos_try w s =
     (case index_stats w s of
        (Inl e, s1) \<Rightarrow> (Inl e, s1)
      | (Inr st, s1) \<Rightarrow>
          (let tot = (case st of None \<Rightarrow> 0 | Some t \<Rightarrow> t) in
           case index_query w dummy_vector (min tot 1000) s1 of
             (Inl e, s2) \<Rightarrow> (Inl e, s2)
           | (Inr ms, s2) \<Rightarrow>
               (case collect_arquivos ms [] of
                  Inl e \<Rightarrow> (Inl e, s2)
                | Inr arquivos \<Rightarrow> (Inr arquivos, s2))))"

text \<open>The operations. Each one calls itself from its own \<^verbatim>\<open>except\<close> block, so the depth
  of the recursion depends on the answers of the services. The first argument is the
  number of frames of the operation for which the interpreter's recursion limit still has
  room: a call for which there is none raises \<^verbatim>\<open>RecursionError\<close>, which the
  \<^verbatim>\<open>except Exception\<close> of the calling frame catches like any other exception. (A
  \<^verbatim>\<open>RecursionError\<close> raised inside a call of a client library is a failure of that call,
  which the oracles cover.) An operation returns its response or raises; the exception
  \<^verbatim>\<open>e\<close> of the \<^verbatim>\<open>try\<close> block is the one whose text goes into the detail of status 500,
  while whatever the nested call raises is dropped by \<^verbatim>\<open>except Exception: pass\<close>.\<close>

fun listar_contratos ::
  "nat \<Rightarrow> world \<Rightarrow> int \<Rightarrow> int \<Rightarrow> gstate \<Rightarrow> (exn + SearchResponse) \<times> gstate" where
  "listar_contratos 0 w skip limit s = (Inl RecursionError, s)"
| "listar_contratos (Suc n) w skip limit s =
     (case sem_conexao w s of
        (True, s1) \<Rightarrow> (Inl (HTTPException 503 detail_503), s1)
      | (False, s1) \<Rightarrow>
          (case listar_contratos_try w skip limit s1 of
             (Inr resp, s2) \<Rightarrow> (Inr resp, s2)
           | (Inl e, s2) \<Rightarrow>
               (case conectar_pinecone w s2 of
                  (True, s3) \<Rightarrow>
                    (case listar_contratos n w skip limit s3 of
                       (Inr resp, s4) \<Rightarrow> (Inr resp, s4)
                     | (Inl x, s4) \<Rightarrow>
                         (Inl (HTTPException 500 (''Erro ao listar contratos: '' @ e)), s4))
                | (False, s3) \<Rightarrow>
                    (Inl (HTTPException 500 (''Erro ao listar contratos: '' @ e)), s3))))"

fun buscar_contratos ::
  "nat \<Rightarrow> world \<Rightarrow> string \<Rightarrow> int \<Rightarrow> gstate \<Rightarrow> (exn + SearchResponse) \<times> gstate" where
  "buscar_contratos 0 w q limit s = (Inl RecursionError, s)"
| "buscar_contratos (Suc n) w q limit s =
     (if q = [] then (Inl (HTTPException 400 detail_400), s)
      else
        (case sem_conexao w s of
           (True, s1) \<Rightarrow> (Inl (HTTPException 503 detail_503), s1)
         | (False, s1) \<Rightarrow>
             (case buscar_contratos_try w q limit s1 of
                (Inr resp, s2) \<Rightarrow> (Inr resp, s2)
              | (Inl e, s2) \<Rightarrow>
                  (case conectar_pinecone w s2 of
                     (True, s3) \<Rightarrow>
                       (case buscar_contratos n w q limit s3 of
                          (Inr resp, s4) \<Rightarrow> (Inr resp, s4)
                        | (Inl x, s4) \<Rightarrow>
                            (Inl (HTTPException 500 (''Erro ao realizar a busca: '' @ e)), s4))
                   | (False, s3) \<Rightarrow>
                       (Inl (HTTPException 500 (''Erro ao realizar a busca: '' @ e)), s3)))))"

fun listar_arquivos ::
  "nat \<Rightarrow> world \<Rightarrow> gstate \<Rightarrow> (exn + string list) \<times> gstate" where
  "listar_arquivos 0 w s = (Inl RecursionError, s)"
| "listar_arquivos (Suc n) w s =
     (case sem_conexao w s of
        (True, s1) \<Rightarrow> (Inl (HTTPException 503 detail_503), s1)
      | (False, s1) \<Rightarrow>
          (case listar_arquivos_try w s1 of
             (Inr resp, s2) \<Rightarrow> (Inr resp, s2)
           | (Inl e, s2) \<Rightarrow>
               (case conectar_pinecone w s2 of
                  (True, s3) \<Rightarrow>
                    (case listar_arquivos n w s3 of
                       (Inr resp, s4) \<Rightarrow> (Inr resp, s4)
                     | (Inl x, s4) \<Rightarrow>
                         (Inl (HTTPException 500 (''Erro ao listar arquivos: '' @ e)), s4))
                | (False, s3) \<Rightarrow>
                    (Inl (HTTPException 500 (''Erro ao listar arquivos: '' @ e)), s3))))"

subsection \<open>Reading a run\<close>

text \<open>Whether a run has returned a response, and the number of queries in its trace.\<close>

definition queries_of_run :: "('e + 'a) \<times> gstate \<Rightarrow> bool \<times> nat" where
  "queries_of_run run = (case run of (r, s) \<Rightarrow> (\<not> isl r, calls is_query s))"

text \<open>A round that is followed by another run of the \<^verbatim>\<open>try\<close> block \<open>body\<close>: the block
  raises and \<^verbatim>\<open>conectar_pinecone\<close> then returns \<^verbatim>\<open>True\<close>. The value is the state that the
  reconnection leaves, \<open>None\<close> when the block returns or the reconnection fails.
  \<open>failed_rounds k\<close> is \<open>k\<close> such rounds in a row.\<close>

definition failed_round ::
  "world \<Rightarrow> (gstate \<Rightarrow> (string + 'a) \<times> gstate) \<Rightarrow> gstate \<Rightarrow> gstate option" where
  "failed_round w body s =
     (case body s of
        (Inr r, s2) \<Rightarrow> None
      | (Inl e, s2) \<Rightarrow>
          (case conectar_pinecone w s2 of (True, s3) \<Rightarrow> Some s3 | (False, s3) \<Rightarrow> None))"

fun failed_rounds ::
  "nat \<Rightarrow> world \<Rightarrow> (gstate \<Rightarrow> (string + 'a) \<times> gstate) \<Rightarrow> gstate \<Rightarrow> gstate option" where
  "failed_rounds 0 w body s = Some s"
| "failed_rounds (Suc k) w body s =
     (case failed_round w body s of
        None \<Rightarrow> None
      | Some s' \<Rightarrow> failed_rounds k w body s')"

text \<open>The state in which requests find the module: line 68 has run
  \<^verbatim>\<open>conectar_pinecone\<close> once.\<close>

definition loaded :: "world \<Rightarrow> gstate" where
  "loaded w = snd (conectar_pinecone w initial)"

text \<open>The handle opened last among the events of a run, \<open>h0\<close> when none was.\<close>

fun last_opened :: "event list \<Rightarrow> handle option \<Rightarrow> handle option" where
  "last_opened [] h0 = h0"
| "last_opened (e # es) h0 =
     last_opened es (case e of EvIndex (Some h) \<Rightarrow> Some h | _ \<Rightarrow> h0)"

subsection \<open>Stores used as concrete inputs\<close>

text \<open>A store that cannot be reached: the client object and the index object are
  built (neither needs the network), every statistics probe and every query raises.\<close>

definition store_down :: world where
  "store_down =
     \<lparr>Pinecone = (\<lambda>i. Inr i), Index = (\<lambda>i c. Inr (Suc i)),
      describe_index_stats = (\<lambda>i h. Inl ''timeout''),
      query = (\<lambda>i h v k. Inl ''timeout''),
      embeddings_create = (\<lambda>i t. Inl ''timeout'')\<rparr>"

text \<open>A deployment without a usable API key: the client constructor raises.\<close>

definition store_unconfigured :: world where
  "store_unconfigured =
     \<lparr>Pinecone = (\<lambda>i. Inl ''api key''), Index = (\<lambda>i c. Inr i),
      describe_index_stats = (\<lambda>i h. Inr (Some 0)),
      query = (\<lambda>i h v k. Inr []),
      embeddings_create = (\<lambda>i t. Inr [])\<rparr>"

text \<open>A store whose statistics probe fails once and works from then on.\<close>

definition store_recovering :: world where
  "store_recovering =
     \<lparr>Pinecone = (\<lambda>i. Inr i), Index = (\<lambda>i c. Inr (Suc i)),
      describe_index_stats = (\<lambda>i h. if i = 0 then Inl ''timeout'' else Inr (Some 0)),
      query = (\<lambda>i h v k. Inr []),
      embeddings_create = (\<lambda>i t. Inr [])\<rparr>"

text \<open>An empty store that can always be connected to and whose first \<open>k\<close> queries
  raise.\<close>

definition query_fails_first :: "nat \<Rightarrow> world" where
  "query_fails_first k =
     \<lparr>Pinecone = (\<lambda>i. Inr i), Index = (\<lambda>i c. Inr i),
      describe_index_stats = (\<lambda>i h. Inr (Some 0)),
      query = (\<lambda>i h v t. if i < k then Inl ''stale'' else Inr []),
      embeddings_create = (\<lambda>i t. Inr [])\<rparr>"

text \<open>A store whose first query raises with one text and whose later queries raise with
  another, and to which no client can be built after the second.\<close>

definition store_breaking :: world where
  "store_breaking =
     \<lparr>Pinecone = (\<lambda>i. if i < 2 then Inr i else Inl ''down''), Index = (\<lambda>i c. Inr i),
      describe_index_stats = (\<lambda>i h. Inr (Some 0)),
      query = (\<lambda>i h v t. if i = 0 then Inl ''first'' else Inl ''second''),
      embeddings_create = (\<lambda>i t. Inr [])\<rparr>"

text \<open>A store of five vectors, which answers a query with its \<open>top_k\<close> best matches
  and rejects a negative \<open>top_k\<close>.\<close>

definition sample_matches :: "scored_vector list" where
  "sample_matches =
     [\<lparr>match_score = 9, match_metadata = Some [(''arquivo'', ''a.pdf''), (''texto'', ''um'')]\<rparr>,
      \<lparr>match_score = 7, match_metadata = Some [(''arquivo'', []), (''texto'', ''dois'')]\<rparr>,
      \<lparr>match_score = 7, match_metadata = Some [(''arquivo'', ''a.pdf''), (''texto'', ''tres'')]\<rparr>,
      \<lparr>match_score = 4, match_metadata = Some [(''texto'', ''quatro'')]\<rparr>,
      \<lparr>match_score = 1, match_metadata = Some [(''arquivo'', ''b.pdf''), (''texto'', ''cinco'')]\<rparr>]"

definition store_sample :: world where
  "store_sample =
     \<lparr>Pinecone = (\<lambda>i. Inr i), Index = (\<lambda>i c. Inr i),
      describe_index_stats = (\<lambda>i h. Inr (Some 5)),
      query = (\<lambda>i h v k. if k < 0 then Inl ''top_k'' else Inr (take (nat k) sample_matches)),
      embeddings_create = (\<lambda>i t. Inr [1, 0])\<rparr>"

text \<open>The store cannot be reached, the embedding provider works.\<close>

definition store_unreachable :: world where
  "store_unreachable = store_down\<lparr>embeddings_create := (\<lambda>i t. Inr [1, 0])\<rparr>"

text \<open>The sample store when its first two queries raise.\<close>

definition store_flaky :: world where
  "store_flaky =
     store_sample\<lparr>query := (\<lambda>i h v k. if i < 2 then Inl ''stale'' else query store_sample i h v k)\<rparr>"

section \<open>Properties\<close>

subsection \<open>What a run of \<^verbatim>\<open>conectar_pinecone\<close> does to the handle and to the trace\<close>

declare conectar_pinecone.simps [simp del]

lemma last_opened_append:
  "last_opened (xs @ ys) h0 = last_opened ys (last_opened xs h0)"
  by (induction xs arbitrary: h0) simp_all

lemma last_opened_unchanged:
  "\<forall>h. EvIndex (Some h) \<notin> set evs \<Longrightarrow> last_opened evs h0 = h0"
proof (induction evs arbitrary: h0)
  case Nil
  then show ?case by simp
next
  case (Cons e evs)
  then show ?case by (cases e) (auto split: option.splits)
qed

lemma connect_try_events:
  assumes "connect_try w s = (r, s')"
  shows "\<exists>evs. trace s' = trace s @ evs
           \<and> connection_attempts s' = connection_attempts s
           \<and> index s' = last_opened evs (index s)
           \<and> filter is_query evs = [] \<and> filter is_embed evs = []
           \<and> (case r of
                 Inr st \<Rightarrow> \<exists>h. index s' = Some h \<and> evs \<noteq> [] \<and> last evs = EvStats h True
               | Inl e \<Rightarrow> \<forall>h. EvStats h True \<notin> set evs)"
  using assms
  by (auto simp: connect_try_def emit_def Let_def split: sum.splits)

lemma conectar_events:
  "conectar_pinecone w s = (ok, s') \<Longrightarrow>
     \<exists>evs. trace s' = trace s @ evs
       \<and> index s' = last_opened evs (index s)
       \<and> filter is_query evs = [] \<and> filter is_embed evs = []
       \<and> (if ok then \<exists>h. index s' = Some h \<and> evs \<noteq> [] \<and> last evs = EvStats h True
           else \<forall>h. EvStats h True \<notin> set evs)"
proof (induction w s arbitrary: ok s' rule: conectar_pinecone.induct)
  case (1 w s)
  obtain r s1 where ct: "connect_try w s = (r, s1)"
    by (cases "connect_try w s")
  from connect_try_events [OF ct] obtain evs1 where
    e1: "trace s1 = trace s @ evs1" "connection_attempts s1 = connection_attempts s"
      "index s1 = last_opened evs1 (index s)"
      "filter is_query evs1 = []" "filter is_embed evs1 = []"
      "case r of Inr st \<Rightarrow> \<exists>h. index s1 = Some h \<and> evs1 \<noteq> [] \<and> last evs1 = EvStats h True
               | Inl e \<Rightarrow> \<forall>h. EvStats h True \<notin> set evs1"
    by blast
  show ?case
  proof (cases r)
    case (Inr st)
    with ct "1.prems" have "ok" "s' = s1\<lparr>connection_attempts := 0\<rparr>"
      by (simp_all add: conectar_pinecone.simps [of w s])
    with e1 Inr show ?thesis by auto
  next
    case (Inl e)
    define s2 where "s2 = s1\<lparr>connection_attempts := connection_attempts s1 + 1\<rparr>"
    show ?thesis
    proof (cases "connection_attempts s2 < MAX_RECONNECT_ATTEMPTS")
      case True
      with ct Inl "1.prems" have rec: "conectar_pinecone w (emit (EvSleep 2) s2) = (ok, s')"
        by (simp add: conectar_pinecone.simps [of w s] s2_def Let_def)
      from "1.IH" [OF ct [symmetric] Inl s2_def True rec] obtain evs2 where
        e2: "trace s' = trace (emit (EvSleep 2) s2) @ evs2"
          "index s' = last_opened evs2 (index (emit (EvSleep 2) s2))"
          "filter is_query evs2 = []" "filter is_embed evs2 = []"
          "if ok then \<exists>h. index s' = Some h \<and> evs2 \<noteq> [] \<and> last evs2 = EvStats h True
           else \<forall>h. EvStats h True \<notin> set evs2"
        by blast
      let ?evs = "evs1 @ EvSleep 2 # evs2"
      have "trace s' = trace s @ ?evs"
        using e1 e2 by (simp add: emit_def s2_def)
      moreover have "index s' = last_opened ?evs (index s)"
        using e1 e2 by (simp add: emit_def s2_def last_opened_append)
      moreover have "filter is_query ?evs = []" "filter is_embed ?evs = []"
        using e1 e2 by simp_all
      moreover have "if ok then \<exists>h. index s' = Some h \<and> ?evs \<noteq> [] \<and> last ?evs = EvStats h True
           else \<forall>h. EvStats h True \<notin> set ?evs"
        using e1(6) e2(5) Inl by (auto split: if_splits)
      ultimately show ?thesis by blast
    next
      case False
      with ct Inl "1.prems" have "\<not> ok" "s' = s2"
        by (simp_all add: conectar_pinecone.simps [of w s] s2_def Let_def)
      with e1 Inl show ?thesis by (auto simp: s2_def)
    qed
  qed
qed

text \<open>
  Claim C1, as the code has it. \<^verbatim>\<open>index\<close> is assigned on line 43, before the statistics
  probe of line 46, and no line resets it. So after any run of \<^verbatim>\<open>conectar_pinecone\<close> the
  handle is the one opened last during the run, or the handle of before the run when no
  attempt got as far as opening the index; in particular it is left as it was (unset when
  it was unset) when no index was opened. When the run returns \<^verbatim>\<open>True\<close> the handle is set
  and the last event of the run is the successful probe of that very handle; when it
  returns \<^verbatim>\<open>False\<close> no probe of the run has succeeded.
\<close>

theorem conectar_handle:
  assumes "conectar_pinecone w s = (ok, s')"
  shows "\<exists>evs. trace s' = trace s @ evs
           \<and> index s' = last_opened evs (index s)
           \<and> ((\<forall>h. EvIndex (Some h) \<notin> set evs) \<longrightarrow> index s' = index s)
           \<and> (if ok then \<exists>h. index s' = Some h \<and> evs \<noteq> [] \<and> last evs = EvStats h True
               else \<forall>h. EvStats h True \<notin> set evs)"
proof -
  from conectar_events [OF assms] obtain evs where
    e: "trace s' = trace s @ evs" "index s' = last_opened evs (index s)"
       "if ok then \<exists>h. index s' = Some h \<and> evs \<noteq> [] \<and> last evs = EvStats h True
        else \<forall>h. EvStats h True \<notin> set evs"
    by blast
  have "(\<forall>h. EvIndex (Some h) \<notin> set evs) \<longrightarrow> index s' = index s"
    using e(2) last_opened_unchanged [of evs "index s"] by simp
  with e show ?thesis by blast
qed

text \<open>Two first connections of a process. The store recovers at the second attempt: the
  handle is the second one opened, and its probe is the last event. No client can be
  built: no index is opened, and the handle stays unset.\<close>

theorem conectar_handle_witness:
  "(\<exists>s'. conectar_pinecone store_recovering initial = (True, s')
       \<and> index s' = last_opened (trace s') None
       \<and> index s' = Some 2 \<and> last (trace s') = EvStats 2 True)
   \<and> (\<exists>s'. conectar_pinecone store_unconfigured initial = (False, s')
       \<and> trace s' = [EvClient False, EvSleep 2, EvClient False, EvSleep 2, EvClient False]
       \<and> index s' = None)"
proof -
  have "fst (conectar_pinecone store_recovering initial)"
    by code_simp
  then obtain s' where c: "conectar_pinecone store_recovering initial = (True, s')"
    by (cases "conectar_pinecone store_recovering initial") simp
  have i: "index s' = Some 2"
    using c [symmetric] by (simp add: prod_eq_iff) code_simp
  from conectar_handle [OF c] i have
    "index s' = last_opened (trace s') None \<and> last (trace s') = EvStats 2 True"
    by (auto simp: initial_def)
  with c i have 1: "\<exists>s'. conectar_pinecone store_recovering initial = (True, s')
       \<and> index s' = last_opened (trace s') None
       \<and> index s' = Some 2 \<and> last (trace s') = EvStats 2 True"
    by simp
  have "\<not> fst (conectar_pinecone store_unconfigured initial)"
    by code_simp
  then obtain u where d: "conectar_pinecone store_unconfigured initial = (False, u)"
    by (cases "conectar_pinecone store_unconfigured initial") simp
  have tr: "trace u = [EvClient False, EvSleep 2, EvClient False, EvSleep 2, EvClient False]"
    using d [symmetric] by (simp add: prod_eq_iff) code_simp
  from conectar_handle [OF d] tr have "index u = None"
    by (auto simp: initial_def)
  with d tr have "\<exists>s'. conectar_pinecone store_unconfigured initial = (False, s')
       \<and> trace s' = [EvClient False, EvSleep 2, EvClient False, EvSleep 2, EvClient False]
       \<and> index s' = None"
    by simp
  with 1 show ?thesis
    by (rule conjI)
qed

text \<open>Claim C1 as stated fails: with the store unreachable, the first connection of the
  process gives up after three attempts and leaves the handle of the third attempt, whose
  probe failed, in \<^verbatim>\<open>index\<close>.\<close>

theorem conectar_failed_handle_set:
  "\<not> fst (conectar_pinecone store_down initial)
     \<and> index (snd (conectar_pinecone store_down initial)) = Some 3"
  by code_simp

text \<open>
  Claim C2 at the input where the code departs from it. \<^verbatim>\<open>connection_attempts\<close> is reset
  on success only (line 51), so a run that gave up leaves it at 3. With the store
  unreachable, the first run of the process makes three attempts, two seconds apart; the
  next run starts from 3, makes one attempt (the fourth of three, in the words of line 56),
  does not sleep, and gives up.
\<close>

theorem conectar_after_exhaustion:
  "(case conectar_pinecone store_down initial of
      (ok1, s1) \<Rightarrow>
        (case conectar_pinecone store_down s1 of
           (ok2, s2) \<Rightarrow>
             \<not> ok1 \<and> connection_attempts s1 = 3
             \<and> trace s1 =
                 [EvClient True, EvIndex (Some 1), EvStats 1 False, EvSleep 2,
                  EvClient True, EvIndex (Some 2), EvStats 2 False, EvSleep 2,
                  EvClient True, EvIndex (Some 3), EvStats 3 False]
             \<and> \<not> ok2 \<and> connection_attempts s2 = 4
             \<and> trace s2 = trace s1 @ [EvClient True, EvIndex (Some 4), EvStats 4 False]))"
  by code_simp

subsection \<open>The guards of the operations\<close>

lemma sem_conexao_handle_set:
  "index s \<noteq> None \<Longrightarrow> sem_conexao w s = (False, s)"
  by (auto simp: sem_conexao_def)

text \<open>
  Claim C4, as the code has it. The guard of an operation tests the variable \<^verbatim>\<open>index\<close>,
  not the connection. When \<^verbatim>\<open>index\<close> is unset and \<^verbatim>\<open>conectar_pinecone\<close> returns \<^verbatim>\<open>False\<close>,
  each of the three operations (the search being given a query that is not empty) raises
  status 503 in the state the connection run left, and no query and no embedding call has
  been made. When \<^verbatim>\<open>index\<close> is set, be it to a handle whose probe has failed, the guard
  calls nothing and changes nothing, and the operation does not raise status 503.
\<close>

theorem unavailable_when_unset:
  "(index s = None \<and> conectar_pinecone w s = (False, s') \<longrightarrow>
      listar_contratos (Suc n) w skip limit s = (Inl (HTTPException 503 detail_503), s')
    \<and> (q \<noteq> [] \<longrightarrow>
         buscar_contratos (Suc n) w q limit s = (Inl (HTTPException 503 detail_503), s'))
    \<and> listar_arquivos (Suc n) w s = (Inl (HTTPException 503 detail_503), s')
    \<and> filter is_query (trace s') = filter is_query (trace s)
    \<and> filter is_embed (trace s') = filter is_embed (trace s))
   \<and> (index s \<noteq> None \<longrightarrow>
      sem_conexao w s = (False, s)
    \<and> fst (listar_contratos (Suc n) w skip limit s) \<noteq> Inl (HTTPException 503 d)
    \<and> fst (buscar_contratos (Suc n) w q limit s) \<noteq> Inl (HTTPException 503 d)
    \<and> fst (listar_arquivos (Suc n) w s) \<noteq> Inl (HTTPException 503 d))"
proof (intro conjI impI)
  assume a: "index s = None \<and> conectar_pinecone w s = (False, s')"
  then have g: "sem_conexao w s = (True, s')"
    by (simp add: sem_conexao_def)
  from a conectar_events [of w s False s'] show
    "filter is_query (trace s') = filter is_query (trace s)"
    "filter is_embed (trace s') = filter is_embed (trace s)"
    by auto
  from g show "listar_contratos (Suc n) w skip limit s = (Inl (HTTPException 503 detail_503), s')"
    by simp
  from g show "listar_arquivos (Suc n) w s = (Inl (HTTPException 503 detail_503), s')"
    by simp
  assume "q \<noteq> []"
  with g show "buscar_contratos (Suc n) w q limit s = (Inl (HTTPException 503 detail_503), s')"
    by simp
next
  assume "index s \<noteq> None"
  then show g: "sem_conexao w s = (False, s)"
    by (rule sem_conexao_handle_set)
  from g show "fst (listar_contratos (Suc n) w skip limit s) \<noteq> Inl (HTTPException 503 d)"
    by (simp split: prod.splits sum.splits bool.splits)
  from g show "fst (buscar_contratos (Suc n) w q limit s) \<noteq> Inl (HTTPException 503 d)"
    by (simp split: prod.splits sum.splits bool.splits)
  from g show "fst (listar_arquivos (Suc n) w s) \<noteq> Inl (HTTPException 503 d)"
    by (simp split: prod.splits sum.splits bool.splits)
qed

text \<open>Two deployments after the module is loaded. Without a usable API key \<^verbatim>\<open>index\<close>
  is unset and the connection fails again: status 503. With the store unreachable
  \<^verbatim>\<open>index\<close> holds the handle of the last attempt: no status 503.\<close>

theorem unavailable_when_unset_witness:
  "(index (loaded store_unconfigured) = None
    \<and> \<not> fst (conectar_pinecone store_unconfigured (loaded store_unconfigured))
    \<and> fst (listar_contratos 1 store_unconfigured 0 10 (loaded store_unconfigured))
        = Inl (HTTPException 503 detail_503)
    \<and> fst (buscar_contratos 1 store_unconfigured ''aluguel'' 10 (loaded store_unconfigured))
        = Inl (HTTPException 503 detail_503)
    \<and> fst (listar_arquivos 1 store_unconfigured (loaded store_unconfigured))
        = Inl (HTTPException 503 detail_503)
    \<and> filter is_query (trace (snd (listar_contratos 1 store_unconfigured 0 10
          (loaded store_unconfigured)))) = []
    \<and> filter is_embed (trace (snd (buscar_contratos 1 store_unconfigured ''aluguel'' 10
          (loaded store_unconfigured)))) = [])
   \<and> (index (loaded store_unreachable) = Some 3
    \<and> sem_conexao store_unreachable (loaded store_unreachable)
        = (False, loaded store_unreachable)
    \<and> fst (listar_contratos 1 store_unreachable 0 10 (loaded store_unreachable))
        \<noteq> Inl (HTTPException 503 detail_503))"
proof -
  define s where "s = loaded store_unconfigured"
  define s' where "s' = snd (conectar_pinecone store_unconfigured s)"
  have i: "index s = None"
    unfolding s_def by code_simp
  have e: "filter is_query (trace s) = [] \<and> filter is_embed (trace s) = []"
    unfolding s_def by code_simp
  have f: "\<not> fst (conectar_pinecone store_unconfigured s)"
    unfolding s_def by code_simp
  then have c: "conectar_pinecone store_unconfigured s = (False, s')"
    unfolding s'_def by (simp add: prod_eq_iff)
  have q: "''aluguel'' \<noteq> []"
    by simp
  from unavailable_when_unset [of s store_unconfigured s' 0 0 10 "''aluguel''"] i c q e f
  have 1: "index s = None \<and> \<not> fst (conectar_pinecone store_unconfigured s)
    \<and> fst (listar_contratos 1 store_unconfigured 0 10 s) = Inl (HTTPException 503 detail_503)
    \<and> fst (buscar_contratos 1 store_unconfigured ''aluguel'' 10 s)
        = Inl (HTTPException 503 detail_503)
    \<and> fst (listar_arquivos 1 store_unconfigured s) = Inl (HTTPException 503 detail_503)
    \<and> filter is_query (trace (snd (listar_contratos 1 store_unconfigured 0 10 s))) = []
    \<and> filter is_embed (trace (snd (buscar_contratos 1 store_unconfigured ''aluguel'' 10 s))) = []"
    by (simp del: listar_contratos.simps buscar_contratos.simps listar_arquivos.simps)
  define u where "u = loaded store_unreachable"
  have j: "index u = Some 3"
    unfolding u_def by code_simp
  then have "index u \<noteq> None"
    by simp
  with unavailable_when_unset [of u store_unreachable _ 0 0 10 _ detail_503] j
  have 2: "index u = Some 3 \<and> sem_conexao store_unreachable u = (False, u)
    \<and> fst (listar_contratos 1 store_unreachable 0 10 u) \<noteq> Inl (HTTPException 503 detail_503)"
    by (simp del: listar_contratos.simps buscar_contratos.simps listar_arquivos.simps)
  from 1 2 show ?thesis
    unfolding s_def u_def by (rule conjI)
qed

text \<open>Claim C4 as stated fails. The store is unreachable: the connection of line 68 gives
  up after three attempts, and so does any later one. A search then calls the embedding
  provider, sends a query through the handle whose probe failed, and raises status 500;
  the listing and the enumeration of file names raise status 500 as well.\<close>

theorem unreachable_store_500:
  "\<not> fst (conectar_pinecone store_unreachable initial)
   \<and> \<not> fst (conectar_pinecone store_unreachable (loaded store_unreachable))
   \<and> fst (buscar_contratos 1 store_unreachable ''aluguel'' 5 (loaded store_unreachable))
       = Inl (HTTPException 500 ''Erro ao realizar a busca: timeout'')
   \<and> filter is_embed
        (trace (snd (buscar_contratos 1 store_unreachable ''aluguel'' 5
           (loaded store_unreachable)))) = [EvEmbed ''aluguel'' True]
   \<and> filter is_query
        (trace (snd (buscar_contratos 1 store_unreachable ''aluguel'' 5
           (loaded store_unreachable)))) = [EvQuery 3 [1, 0] 5 False]
   \<and> fst (listar_contratos 1 store_unreachable 0 10 (loaded store_unreachable))
       = Inl (HTTPException 500 ''Erro ao listar contratos: timeout'')
   \<and> fst (listar_arquivos 1 store_unreachable (loaded store_unreachable))
       = Inl (HTTPException 500 ''Erro ao listar arquivos: timeout'')"
  by code_simp

text \<open>
  Claim C5. A search with the empty query raises status 400 and leaves the state as it
  was: the trace is the same, so neither the embedding provider nor the store has been
  called, and \<^verbatim>\<open>conectar_pinecone\<close> has not run.
\<close>

theorem buscar_empty_query:
  "buscar_contratos (Suc n) w [] limit s = (Inl (HTTPException 400 detail_400), s)"
  by simp

theorem buscar_empty_query_witness:
  "buscar_contratos 1 store_sample [] 5 (loaded store_sample)
     = (Inl (HTTPException 400 detail_400), loaded store_sample)"
  using buscar_empty_query [of 0 store_sample 5 "loaded store_sample"] by simp

subsection \<open>What a successful operation returns\<close>

lemma to_contratos_scores:
  "to_contratos ms = Inr rs \<Longrightarrow> length rs = length ms \<and> map score rs = map match_score ms"
  by (induction ms arbitrary: rs) (auto split: option.splits sum.splits)

lemma py_slice_window:
  assumes "0 \<le> skip" and "0 \<le> limit"
  shows "(if ms \<noteq> [] then py_slice ms skip (skip + limit) else [])
           = take (nat limit) (drop (nat skip) ms)"
proof (cases "skip + limit \<le> int (length ms)")
  case True
  with assms show ?thesis
    by (auto simp: py_slice_def Let_def min_def)
next
  case False
  with assms have "length (drop (nat skip) ms) \<le> nat limit"
    by simp
  with assms False show ?thesis
    by (auto simp: py_slice_def Let_def min_def)
qed

lemma collect_arquivos_set:
  "collect_arquivos ms acc = Inr fs \<Longrightarrow>
     (distinct acc \<longrightarrow> distinct fs)
     \<and> set fs = set acc \<union>
         {a. a \<noteq> [] \<and> (\<exists>m\<in>set ms. \<exists>md. match_metadata m = Some md
                             \<and> map_of md ''arquivo'' = Some a)}"
proof (induction ms arbitrary: acc)
  case Nil
  then show ?case by simp
next
  case (Cons m ms)
  then show ?case
    by (fastforce split: option.splits if_splits)
qed

lemma index_stats_Inr:
  "index_stats w s = (Inr st, s') \<Longrightarrow>
     \<exists>h. index s = Some h \<and> describe_index_stats w (calls is_stats s) h = Inr st
        \<and> s' = emit (EvStats h True) s"
  by (auto simp: index_stats_def split: option.splits sum.splits)

lemma index_query_Inr:
  "index_query w v k s = (Inr ms, s') \<Longrightarrow>
     \<exists>h. index s = Some h \<and> query w (calls is_query s) h v k = Inr ms
        \<and> s' = emit (EvQuery h v k True) s"
  by (auto simp: index_query_def split: option.splits sum.splits)

lemma gerar_embedding_Inr:
  "gerar_embedding w q s = (Inr v, s') \<Longrightarrow>
     embeddings_create w (calls is_embed s) q = Inr v \<and> s' = emit (EvEmbed q True) s"
  by (auto simp: gerar_embedding_def split: sum.splits)

lemma listar_contratos_try_success:
  assumes "listar_contratos_try w skip limit s1 = (Inr resp, s')"
  shows "\<exists>h st ms. index s1 = Some h
           \<and> trace s' = trace s1 @ [EvStats h True, EvQuery h dummy_vector (skip + limit) True]
           \<and> describe_index_stats w (calls is_stats s1) h = Inr st
           \<and> query w (calls is_query s1) h dummy_vector (skip + limit) = Inr ms
           \<and> total resp = (case st of None \<Rightarrow> 0 | Some t \<Rightarrow> t)
           \<and> to_contratos (if ms \<noteq> [] then py_slice ms skip (skip + limit) else [])
               = Inr (resultados resp)"
proof -
  obtain r1 sa where a: "index_stats w s1 = (r1, sa)"
    by (cases "index_stats w s1")
  with assms obtain st where r1: "r1 = Inr st"
    by (cases r1) (simp_all add: listar_contratos_try_def)
  obtain r2 sb where b: "index_query w dummy_vector (skip + limit) sa = (r2, sb)"
    by (cases "index_query w dummy_vector (skip + limit) sa")
  with assms a r1 obtain ms where r2: "r2 = Inr ms"
    by (cases r2) (simp_all add: listar_contratos_try_def)
  from assms a r1 b r2 have c:
    "to_contratos (if ms \<noteq> [] then py_slice ms skip (skip + limit) else [])
       = Inr (resultados resp)"
    "total resp = (case st of None \<Rightarrow> 0 | Some t \<Rightarrow> t)" "s' = sb"
    by (auto simp: listar_contratos_try_def split: sum.splits)
  from index_stats_Inr [OF a [unfolded r1]] obtain h where
    h: "index s1 = Some h" "describe_index_stats w (calls is_stats s1) h = Inr st"
       "sa = emit (EvStats h True) s1"
    by blast
  from index_query_Inr [OF b [unfolded r2]] h have
    "query w (calls is_query s1) h dummy_vector (skip + limit) = Inr ms"
    "sb = emit (EvQuery h dummy_vector (skip + limit) True) sa"
    by (auto simp: emit_def calls_def)
  with h c show ?thesis
    by (auto simp: emit_def)
qed

lemma buscar_contratos_try_success:
  assumes "buscar_contratos_try w q limit s1 = (Inr resp, s')"
  shows "\<exists>h v ms. index s1 = Some h
           \<and> trace s' = trace s1 @ [EvEmbed q True, EvQuery h v limit True]
           \<and> embeddings_create w (calls is_embed s1) q = Inr v
           \<and> query w (calls is_query s1) h v limit = Inr ms
           \<and> total resp = int (length (resultados resp))
           \<and> to_contratos ms = Inr (resultados resp)"
proof -
  obtain r1 sa where a: "gerar_embedding w q s1 = (r1, sa)"
    by (cases "gerar_embedding w q s1")
  with assms obtain v where r1: "r1 = Inr v"
    by (cases r1) (simp_all add: buscar_contratos_try_def)
  obtain r2 sb where b: "index_query w v limit sa = (r2, sb)"
    by (cases "index_query w v limit sa")
  with assms a r1 obtain ms where r2: "r2 = Inr ms"
    by (cases r2) (simp_all add: buscar_contratos_try_def)
  from assms a r1 b r2 have c:
    "to_contratos ms = Inr (resultados resp)"
    "total resp = int (length (resultados resp))" "s' = sb"
    by (auto simp: buscar_contratos_try_def split: sum.splits)
  from gerar_embedding_Inr [OF a [unfolded r1]] have
    e: "embeddings_create w (calls is_embed s1) q = Inr v" "sa = emit (EvEmbed q True) s1"
    by simp_all
  from index_query_Inr [OF b [unfolded r2]] e obtain h where
    "index s1 = Some h" "query w (calls is_query s1) h v limit = Inr ms"
    "sb = emit (EvQuery h v limit True) sa"
    by (auto simp: emit_def calls_def)
  with e c show ?thesis
    by (auto simp: emit_def)
qed

lemma listar_arquivos_try_success:
  assumes "listar_arquivos_try w s1 = (Inr fs, s')"
  shows "\<exists>h st ms. index s1 = Some h
           \<and> trace s' = trace s1 @
               [EvStats h True,
                EvQuery h dummy_vector (min (case st of None \<Rightarrow> 0 | Some t \<Rightarrow> t) 1000) True]
           \<and> describe_index_stats w (calls is_stats s1) h = Inr st
           \<and> query w (calls is_query s1) h dummy_vector
                (min (case st of None \<Rightarrow> 0 | Some t \<Rightarrow> t) 1000) = Inr ms
           \<and> collect_arquivos ms [] = Inr fs"
proof -
  obtain r1 sa where a: "index_stats w s1 = (r1, sa)"
    by (cases "index_stats w s1")
  with assms obtain st where r1: "r1 = Inr st"
    by (cases r1) (simp_all add: listar_arquivos_try_def)
  let ?k = "min (case st of None \<Rightarrow> 0 | Some t \<Rightarrow> t) 1000"
  obtain r2 sb where b: "index_query w dummy_vector ?k sa = (r2, sb)"
    by (cases "index_query w dummy_vector ?k sa")
  with assms a r1 obtain ms where r2: "r2 = Inr ms"
    by (cases r2) (simp_all add: listar_arquivos_try_def)
  from assms a r1 b r2 have c: "collect_arquivos ms [] = Inr fs" "s' = sb"
    by (auto simp: listar_arquivos_try_def split: sum.splits)
  from index_stats_Inr [OF a [unfolded r1]] obtain h where
    h: "index s1 = Some h" "describe_index_stats w (calls is_stats s1) h = Inr st"
       "sa = emit (EvStats h True) s1"
    by blast
  from index_query_Inr [OF b [unfolded r2]] h have
    "query w (calls is_query s1) h dummy_vector ?k = Inr ms"
    "sb = emit (EvQuery h dummy_vector ?k True) sa"
    by (auto simp: emit_def calls_def)
  with h c show ?thesis
    by (auto simp: emit_def)
qed

text \<open>A response that an operation returns is the response of one run of its \<^verbatim>\<open>try\<close>
  block, the outermost or a nested one.\<close>

lemma listar_contratos_success:
  "listar_contratos n w skip limit s = (Inr resp, s') \<Longrightarrow>
     \<exists>s1. listar_contratos_try w skip limit s1 = (Inr resp, s')"
proof (induction n arbitrary: s)
  case 0
  then show ?case by simp
next
  case (Suc n)
  obtain g s1 where g: "sem_conexao w s = (g, s1)"
    by (cases "sem_conexao w s")
  with Suc.prems have ng: "\<not> g"
    by (cases g) simp_all
  obtain r s2 where t: "listar_contratos_try w skip limit s1 = (r, s2)"
    by (cases "listar_contratos_try w skip limit s1")
  show ?case
  proof (cases r)
    case (Inr resp')
    with Suc.prems g ng t have "resp' = resp" "s2 = s'"
      by simp_all
    with t Inr show ?thesis by blast
  next
    case (Inl e)
    obtain ok s3 where c: "conectar_pinecone w s2 = (ok, s3)"
      by (cases "conectar_pinecone w s2")
    with Suc.prems g ng t Inl have "listar_contratos n w skip limit s3 = (Inr resp, s')"
      by (cases ok) (auto split: prod.splits sum.splits)
    then show ?thesis by (rule Suc.IH)
  qed
qed

lemma buscar_contratos_success:
  "buscar_contratos n w q limit s = (Inr resp, s') \<Longrightarrow>
     \<exists>s1. buscar_contratos_try w q limit s1 = (Inr resp, s')"
proof (induction n arbitrary: s)
  case 0
  then show ?case by simp
next
  case (Suc n)
  from Suc.prems have q: "q \<noteq> []"
    by (cases "q = []") simp_all
  obtain g s1 where g: "sem_conexao w s = (g, s1)"
    by (cases "sem_conexao w s")
  with Suc.prems q have ng: "\<not> g"
    by (cases g) simp_all
  obtain r s2 where t: "buscar_contratos_try w q limit s1 = (r, s2)"
    by (cases "buscar_contratos_try w q limit s1")
  show ?case
  proof (cases r)
    case (Inr resp')
    with Suc.prems q g ng t have "resp' = resp" "s2 = s'"
      by simp_all
    with t Inr show ?thesis by blast
  next
    case (Inl e)
    obtain ok s3 where c: "conectar_pinecone w s2 = (ok, s3)"
      by (cases "conectar_pinecone w s2")
    with Suc.prems q g ng t Inl have "buscar_contratos n w q limit s3 = (Inr resp, s')"
      by (cases ok) (auto split: prod.splits sum.splits)
    then show ?thesis by (rule Suc.IH)
  qed
qed

lemma listar_arquivos_success:
  "listar_arquivos n w s = (Inr fs, s') \<Longrightarrow>
     \<exists>s1. listar_arquivos_try w s1 = (Inr fs, s')"
proof (induction n arbitrary: s)
  case 0
  then show ?case by simp
next
  case (Suc n)
  obtain g s1 where g: "sem_conexao w s = (g, s1)"
    by (cases "sem_conexao w s")
  with Suc.prems have ng: "\<not> g"
    by (cases g) simp_all
  obtain r s2 where t: "listar_arquivos_try w s1 = (r, s2)"
    by (cases "listar_arquivos_try w s1")
  show ?case
  proof (cases r)
    case (Inr fs')
    with Suc.prems g ng t have "fs' = fs" "s2 = s'"
      by simp_all
    with t Inr show ?thesis by blast
  next
    case (Inl e)
    obtain ok s3 where c: "conectar_pinecone w s2 = (ok, s3)"
      by (cases "conectar_pinecone w s2")
    with Suc.prems g ng t Inl have "listar_arquivos n w s3 = (Inr fs, s')"
      by (cases ok) (auto split: prod.splits sum.splits)
    then show ?thesis by (rule Suc.IH)
  qed
qed

text \<open>Reading a successful run off the value of an operation.\<close>

lemma successful_run:
  assumes "(case run of (r, s) \<Rightarrow> (isl r, f (projr r) s)) = (False, y)"
  shows "\<exists>x s'. run = (Inr x, s') \<and> f x s' = y"
proof -
  obtain r s' where run: "run = (r, s')"
    by (cases run)
  with assms have 1: "\<not> isl r" "f (projr r) s' = y"
    by simp_all
  then obtain x where "r = Inr x"
    by (cases r) auto
  with 1 run show ?thesis by auto
qed

lemma sample_matches_sorted:
  "sorted_wrt (\<ge>) (map match_score sample_matches)"
  by (simp add: sample_matches_def)

lemma store_sample_contract:
  assumes "query store_sample i h v k = Inr ms"
  shows "int (length ms) \<le> k \<and> sorted_wrt (\<ge>) (map match_score ms)"
proof -
  from assms have k: "0 \<le> k" and ms: "ms = take (nat k) sample_matches"
    by (auto simp: store_sample_def split: if_splits)
  have "sorted_wrt (\<ge>) (take (nat k) (map match_score sample_matches))"
    using sample_matches_sorted by (rule sorted_wrt_take)
  with k ms show ?thesis
    by (simp add: take_map)
qed

text \<open>
  Claim C6. When a search returns a response, under the store's contract (a query answers
  with at most \<open>top_k\<close> matches, in order of non-increasing score): \<open>total\<close> is the number
  of hits, there are at most \<open>limit\<close> hits, their scores are non-increasing, and the hits
  are, in the store's order and with the store's scores, the matches of the last call of
  the run, the query for the embedding of \<open>q\<close> with \<open>top_k = limit\<close>.
\<close>

theorem buscar_contratos_hits:
  assumes "buscar_contratos n w q limit s = (Inr resp, s')"
    and store: "\<And>i h v k ms. query w i h v k = Inr ms \<Longrightarrow>
                  int (length ms) \<le> k \<and> sorted_wrt (\<ge>) (map match_score ms)"
  shows "total resp = int (length (resultados resp))
       \<and> int (length (resultados resp)) \<le> limit
       \<and> sorted_wrt (\<ge>) (map score (resultados resp))
       \<and> (\<exists>tr h v ms. trace s' = tr @ [EvEmbed q True, EvQuery h v limit True]
             \<and> embeddings_create w (length (filter is_embed tr)) q = Inr v
             \<and> query w (length (filter is_query tr)) h v limit = Inr ms
             \<and> to_contratos ms = Inr (resultados resp)
             \<and> map score (resultados resp) = map match_score ms)"
proof -
  from buscar_contratos_success [OF assms(1)] obtain s1 where
    "buscar_contratos_try w q limit s1 = (Inr resp, s')"
    by blast
  from buscar_contratos_try_success [OF this] obtain h v ms where
    t: "trace s' = trace s1 @ [EvEmbed q True, EvQuery h v limit True]"
       "embeddings_create w (calls is_embed s1) q = Inr v"
       "query w (calls is_query s1) h v limit = Inr ms"
       "total resp = int (length (resultados resp))"
       "to_contratos ms = Inr (resultados resp)"
    by blast
  from to_contratos_scores [OF t(5)] have
    sc: "length (resultados resp) = length ms" "map score (resultados resp) = map match_score ms"
    by simp_all
  from store [OF t(3)] sc have
    "int (length (resultados resp)) \<le> limit" "sorted_wrt (\<ge>) (map score (resultados resp))"
    by simp_all
  with t sc show ?thesis
    unfolding calls_def by blast
qed

theorem buscar_contratos_hits_witness:
  "\<exists>resp s'. buscar_contratos 1 store_sample ''aluguel'' 3 (loaded store_sample) = (Inr resp, s')
      \<and> total resp = 3 \<and> int (length (resultados resp)) \<le> 3
      \<and> sorted_wrt (\<ge>) (map score (resultados resp))
      \<and> map score (resultados resp) = [9, 7, 7]"
proof -
  have "(case buscar_contratos 1 store_sample ''aluguel'' 3 (loaded store_sample) of
            (r, s) \<Rightarrow> (isl r, map score (resultados (projr r)))) = (False, [9, 7, 7])"
    by code_simp
  from successful_run [OF this] obtain resp s' where
    r: "buscar_contratos 1 store_sample ''aluguel'' 3 (loaded store_sample) = (Inr resp, s')"
    and m: "map score (resultados resp) = [9, 7, 7]"
    by metis
  from m have "length (map score (resultados resp)) = 3"
    by simp
  then have l: "int (length (resultados resp)) = 3"
    by simp
  from buscar_contratos_hits [OF r store_sample_contract] l have
    "total resp = 3 \<and> int (length (resultados resp)) \<le> 3
      \<and> sorted_wrt (\<ge>) (map score (resultados resp))"
    by simp
  with r m show ?thesis
    by (auto simp del: buscar_contratos.simps)
qed

text \<open>
  Claim C7. When a listing with \<open>skip \<ge> 0\<close> and \<open>limit \<ge> 0\<close> returns a response, the run
  ends with a statistics probe followed by a query for the vector of 1024 zeros with
  \<open>top_k = skip + limit\<close>; \<open>total\<close> is the count that this probe, the last one of the run,
  reported (0 when the statistics lack the key), whatever \<open>skip\<close> and \<open>limit\<close> are; the
  hits are the matches at positions \<open>skip\<close> to \<open>skip + limit\<close> of the answer, in order, so
  there are at most \<open>limit\<close> of them (none when \<open>limit = 0\<close>).
\<close>

theorem listar_contratos_page:
  assumes "listar_contratos n w skip limit s = (Inr resp, s')"
    and "0 \<le> skip" and "0 \<le> limit"
  shows "\<exists>tr h st ms.
           trace s' = tr @ [EvStats h True, EvQuery h (replicate 1024 0) (skip + limit) True]
         \<and> describe_index_stats w (length (filter is_stats tr)) h = Inr st
         \<and> total resp = (case st of None \<Rightarrow> 0 | Some t \<Rightarrow> t)
         \<and> query w (length (filter is_query tr)) h (replicate 1024 0) (skip + limit) = Inr ms
         \<and> to_contratos (take (nat limit) (drop (nat skip) ms)) = Inr (resultados resp)
         \<and> int (length (resultados resp)) \<le> limit"
proof -
  from listar_contratos_success [OF assms(1)] obtain s1 where
    "listar_contratos_try w skip limit s1 = (Inr resp, s')"
    by blast
  from listar_contratos_try_success [OF this] obtain h st ms where
    t: "trace s' = trace s1 @ [EvStats h True, EvQuery h dummy_vector (skip + limit) True]"
       "describe_index_stats w (calls is_stats s1) h = Inr st"
       "query w (calls is_query s1) h dummy_vector (skip + limit) = Inr ms"
       "total resp = (case st of None \<Rightarrow> 0 | Some t \<Rightarrow> t)"
       "to_contratos (if ms \<noteq> [] then py_slice ms skip (skip + limit) else [])
          = Inr (resultados resp)"
    by blast
  from t(5) py_slice_window [OF assms(2,3), of ms] have
    w: "to_contratos (take (nat limit) (drop (nat skip) ms)) = Inr (resultados resp)"
    by simp
  from to_contratos_scores [OF w] assms(3) have "int (length (resultados resp)) \<le> limit"
    by simp
  with t w show ?thesis
    unfolding calls_def dummy_vector_def by blast
qed

theorem listar_contratos_page_witness:
  "(\<exists>resp s'. listar_contratos 1 store_sample 1 2 (loaded store_sample) = (Inr resp, s')
       \<and> total resp = 5 \<and> int (length (resultados resp)) \<le> 2
       \<and> map arquivo (resultados resp) = ['''', ''a.pdf'']
       \<and> filter is_query (trace s') = [EvQuery 0 (replicate 1024 0) 3 True])
   \<and> (\<exists>resp s'. listar_contratos 1 store_sample 0 0 (loaded store_sample) = (Inr resp, s')
       \<and> total resp = 5 \<and> resultados resp = []
       \<and> filter is_query (trace s') = [EvQuery 0 (replicate 1024 0) 0 True])"
proof -
  have "(case listar_contratos 1 store_sample 1 2 (loaded store_sample) of
            (r, s) \<Rightarrow> (isl r, total (projr r) = 5
              \<and> map arquivo (resultados (projr r)) = ['''', ''a.pdf'']
              \<and> filter is_query (trace s) = [EvQuery 0 (replicate 1024 0) 3 True]))
          = (False, True)"
    by code_simp
  from successful_run [OF this] obtain resp s' where
    r: "listar_contratos 1 store_sample 1 2 (loaded store_sample) = (Inr resp, s')"
    and m: "total resp = 5" "map arquivo (resultados resp) = ['''', ''a.pdf'']"
      "filter is_query (trace s') = [EvQuery 0 (replicate 1024 0) 3 True]"
    by metis
  have "(0::int) \<le> 1" "(0::int) \<le> 2"
    by simp_all
  from listar_contratos_page [OF r this] have "int (length (resultados resp)) \<le> 2"
    by (elim exE conjE)
  with r m have 1: "\<exists>resp s'.
      listar_contratos 1 store_sample 1 2 (loaded store_sample) = (Inr resp, s')
       \<and> total resp = 5 \<and> int (length (resultados resp)) \<le> 2
       \<and> map arquivo (resultados resp) = ['''', ''a.pdf'']
       \<and> filter is_query (trace s') = [EvQuery 0 (replicate 1024 0) 3 True]"
    by (intro exI conjI)
  have "(case listar_contratos 1 store_sample 0 0 (loaded store_sample) of
            (r, s) \<Rightarrow> (isl r, total (projr r) = 5
              \<and> filter is_query (trace s) = [EvQuery 0 (replicate 1024 0) 0 True]))
          = (False, True)"
    by code_simp
  from successful_run [OF this] obtain resp0 s0 where
    r0: "listar_contratos 1 store_sample 0 0 (loaded store_sample) = (Inr resp0, s0)"
    and m0: "total resp0 = 5"
      "filter is_query (trace s0) = [EvQuery 0 (replicate 1024 0) 0 True]"
    by metis
  have z: "(0::int) \<le> 0"
    by simp
  from listar_contratos_page [OF r0 z z] have "int (length (resultados resp0)) \<le> 0"
    by (elim exE conjE)
  then have "resultados resp0 = []"
    by simp
  with r0 m0 have "\<exists>resp s'.
      listar_contratos 1 store_sample 0 0 (loaded store_sample) = (Inr resp, s')
       \<and> total resp = 5 \<and> resultados resp = []
       \<and> filter is_query (trace s') = [EvQuery 0 (replicate 1024 0) 0 True]"
    by (intro exI conjI)
  with 1 show ?thesis
    by (rule conjI)
qed

text \<open>
  Claim C8. When the enumeration of file names returns, the run ends with a statistics
  probe followed by a query for the vector of 1024 zeros with \<open>top_k = min total 1000\<close>, \<open>total\<close>
  being the count that this probe reported (0 when the statistics lack the key); the
  names returned are pairwise distinct, and each one is the \<^verbatim>\<open>arquivo\<close> value of a match of
  that query.
\<close>

theorem listar_arquivos_distinct:
  assumes "listar_arquivos n w s = (Inr fs, s')"
  shows "\<exists>tr h st ms.
           trace s' = tr @
             [EvStats h True,
              EvQuery h (replicate 1024 0) (min (case st of None \<Rightarrow> 0 | Some t \<Rightarrow> t) 1000) True]
         \<and> describe_index_stats w (length (filter is_stats tr)) h = Inr st
         \<and> query w (length (filter is_query tr)) h (replicate 1024 0)
              (min (case st of None \<Rightarrow> 0 | Some t \<Rightarrow> t) 1000) = Inr ms
         \<and> distinct fs
         \<and> set fs \<subseteq> {a. \<exists>m\<in>set ms. \<exists>md. match_metadata m = Some md
                                 \<and> map_of md ''arquivo'' = Some a}"
proof -
  from listar_arquivos_success [OF assms] obtain s1 where
    "listar_arquivos_try w s1 = (Inr fs, s')"
    by blast
  from listar_arquivos_try_success [OF this] obtain h st ms where
    t: "trace s' = trace s1 @
          [EvStats h True,
           EvQuery h dummy_vector (min (case st of None \<Rightarrow> 0 | Some t \<Rightarrow> t) 1000) True]"
       "describe_index_stats w (calls is_stats s1) h = Inr st"
       "query w (calls is_query s1) h dummy_vector
          (min (case st of None \<Rightarrow> 0 | Some t \<Rightarrow> t) 1000) = Inr ms"
       "collect_arquivos ms [] = Inr fs"
    by blast
  from collect_arquivos_set [OF t(4)] have
    "distinct fs"
    "set fs \<subseteq> {a. \<exists>m\<in>set ms. \<exists>md. match_metadata m = Some md
                         \<and> map_of md ''arquivo'' = Some a}"
    by auto
  with t show ?thesis
    unfolding calls_def dummy_vector_def by blast
qed

theorem listar_arquivos_distinct_witness:
  "\<exists>fs s'. listar_arquivos 1 store_sample (loaded store_sample) = (Inr fs, s')
      \<and> distinct fs \<and> set fs = {''a.pdf'', ''b.pdf''}
      \<and> filter is_query (trace s') = [EvQuery 0 (replicate 1024 0) 5 True]"
proof -
  have "(case listar_arquivos 1 store_sample (loaded store_sample) of
            (r, s) \<Rightarrow> (isl r, set (projr r) = {''a.pdf'', ''b.pdf''}
            \<and> filter is_query (trace s) = [EvQuery 0 (replicate 1024 0) 5 True])) = (False, True)"
    by code_simp
  from successful_run [OF this] obtain fs s' where
    r: "listar_arquivos 1 store_sample (loaded store_sample) = (Inr fs, s')"
    and m: "set fs = {''a.pdf'', ''b.pdf''}"
      "filter is_query (trace s') = [EvQuery 0 (replicate 1024 0) 5 True]"
    by metis
  from listar_arquivos_distinct [OF r] have "distinct fs"
    by (elim exE conjE)
  with r m show ?thesis
    by (auto simp del: listar_arquivos.simps)
qed

text \<open>
  Claim C9. When the enumeration of file names returns, the empty string is not among
  the names: the names are exactly the non-empty \<^verbatim>\<open>arquivo\<close> values of the matches of the
  probe query, so a match without the key or with the empty string as its value adds
  nothing.
\<close>

theorem listar_arquivos_no_empty_name:
  assumes "listar_arquivos n w s = (Inr fs, s')"
  shows "[] \<notin> set fs
       \<and> (\<exists>tr h k ms. trace s' = tr @ [EvStats h True, EvQuery h (replicate 1024 0) k True]
             \<and> query w (length (filter is_query tr)) h (replicate 1024 0) k = Inr ms
             \<and> set fs = {a. a \<noteq> [] \<and> (\<exists>m\<in>set ms. \<exists>md. match_metadata m = Some md
                                          \<and> map_of md ''arquivo'' = Some a)})"
proof -
  from listar_arquivos_success [OF assms] obtain s1 where
    "listar_arquivos_try w s1 = (Inr fs, s')"
    by blast
  from listar_arquivos_try_success [OF this] obtain h st ms where
    t: "trace s' = trace s1 @
          [EvStats h True,
           EvQuery h dummy_vector (min (case st of None \<Rightarrow> 0 | Some t \<Rightarrow> t) 1000) True]"
       "query w (calls is_query s1) h dummy_vector
          (min (case st of None \<Rightarrow> 0 | Some t \<Rightarrow> t) 1000) = Inr ms"
       "collect_arquivos ms [] = Inr fs"
    by blast
  from collect_arquivos_set [OF t(3)] have
    c: "set fs = {a. a \<noteq> [] \<and> (\<exists>m\<in>set ms. \<exists>md. match_metadata m = Some md
                                   \<and> map_of md ''arquivo'' = Some a)}"
    by simp
  then have "[] \<notin> set fs"
    by simp
  with t c show ?thesis
    unfolding calls_def dummy_vector_def by blast
qed

text \<open>The sample store has a match with the empty name and one without a name.\<close>

theorem listar_arquivos_no_empty_name_witness:
  "\<exists>fs s'. listar_arquivos 1 store_sample (loaded store_sample) = (Inr fs, s')
      \<and> [] \<notin> set fs \<and> set fs = {''a.pdf'', ''b.pdf''}
      \<and> map (\<lambda>m. map_option (\<lambda>md. map_of md ''arquivo'') (match_metadata m)) sample_matches
          = [Some (Some ''a.pdf''), Some (Some []), Some (Some ''a.pdf''), Some None,
             Some (Some ''b.pdf'')]"
proof -
  have "(case listar_arquivos 1 store_sample (loaded store_sample) of
            (r, s) \<Rightarrow> (isl r, set (projr r) = {''a.pdf'', ''b.pdf''})) = (False, True)"
    by code_simp
  from successful_run [OF this] obtain fs s' where
    r: "listar_arquivos 1 store_sample (loaded store_sample) = (Inr fs, s')"
    and m: "set fs = {''a.pdf'', ''b.pdf''}"
    by metis
  from listar_arquivos_no_empty_name [OF r] have "[] \<notin> set fs"
    by (elim exE conjE)
  moreover have "map (\<lambda>m. map_option (\<lambda>md. map_of md ''arquivo'') (match_metadata m)) sample_matches
          = [Some (Some ''a.pdf''), Some (Some []), Some (Some ''a.pdf''), Some None,
             Some (Some ''b.pdf'')]"
    by (simp add: sample_matches_def)
  ultimately show ?thesis
    using r m by (auto simp del: listar_arquivos.simps)
qed

subsection \<open>The \<^verbatim>\<open>except\<close> blocks of the operations\<close>

text \<open>Reading a failed run off the value of an operation.\<close>

lemma failed_run:
  assumes "fst run = Inl x"
  shows "\<exists>s'. run = (Inl x, s')"
  using assms by (cases run) auto

text \<open>
  Claim C10. In each of the three operations: when the \<^verbatim>\<open>try\<close> block raises \<open>e\<close>, the
  reconnection succeeds and the nested call of the operation raises (whatever it
  raises), the operation raises status 500 whose detail is its own prefix followed by
  the text of \<open>e\<close>, the first failure; the exception of the nested call is dropped.
\<close>

theorem retry_failure_keeps_first_error:
  "(sem_conexao w s = (False, s1) \<and> listar_contratos_try w skip limit s1 = (Inl e, s2)
      \<and> conectar_pinecone w s2 = (True, s3)
      \<and> listar_contratos n w skip limit s3 = (Inl x, s4)
     \<longrightarrow> listar_contratos (Suc n) w skip limit s
           = (Inl (HTTPException 500 (''Erro ao listar contratos: '' @ e)), s4))
   \<and> (q \<noteq> [] \<and> sem_conexao w s = (False, t1) \<and> buscar_contratos_try w q limit t1 = (Inl e', t2)
      \<and> conectar_pinecone w t2 = (True, t3)
      \<and> buscar_contratos n w q limit t3 = (Inl x', t4)
     \<longrightarrow> buscar_contratos (Suc n) w q limit s
           = (Inl (HTTPException 500 (''Erro ao realizar a busca: '' @ e')), t4))
   \<and> (sem_conexao w s = (False, u1) \<and> listar_arquivos_try w u1 = (Inl e'', u2)
      \<and> conectar_pinecone w u2 = (True, u3)
      \<and> listar_arquivos n w u3 = (Inl x'', u4)
     \<longrightarrow> listar_arquivos (Suc n) w s
           = (Inl (HTTPException 500 (''Erro ao listar arquivos: '' @ e'')), u4))"
  by simp

text \<open>The two failures have different texts, and the detail carries the first.\<close>

theorem retry_failure_keeps_first_error_witness:
  "fst (listar_contratos 2 store_breaking 0 10 (loaded store_breaking))
     = Inl (HTTPException 500 ''Erro ao listar contratos: first'')
   \<and> fst (buscar_contratos 2 store_breaking ''aluguel'' 10 (loaded store_breaking))
     = Inl (HTTPException 500 ''Erro ao realizar a busca: first'')
   \<and> fst (listar_arquivos 2 store_breaking (loaded store_breaking))
     = Inl (HTTPException 500 ''Erro ao listar arquivos: first'')"
proof -
  define s1 where "s1 = snd (sem_conexao store_breaking (loaded store_breaking))"
  have g: "sem_conexao store_breaking (loaded store_breaking) = (False, s1)"
    unfolding s1_def prod_eq_iff by (simp del: One_nat_def) code_simp
  define s2 where "s2 = snd (listar_contratos_try store_breaking 0 10 s1)"
  have a1: "listar_contratos_try store_breaking 0 10 s1 = (Inl ''first'', s2)"
    unfolding s2_def s1_def prod_eq_iff by (simp del: One_nat_def) code_simp
  define s3 where "s3 = snd (conectar_pinecone store_breaking s2)"
  have a2: "conectar_pinecone store_breaking s2 = (True, s3)"
    unfolding s3_def s2_def s1_def prod_eq_iff by (simp del: One_nat_def) code_simp
  have "fst (listar_contratos 1 store_breaking 0 10 s3)
          = Inl (HTTPException 500 ''Erro ao listar contratos: second'')"
    unfolding s3_def s2_def s1_def by code_simp
  from failed_run [OF this] obtain s4 where
    a3: "listar_contratos 1 store_breaking 0 10 s3
           = (Inl (HTTPException 500 ''Erro ao listar contratos: second''), s4)"
    by metis
  define t2 where "t2 = snd (buscar_contratos_try store_breaking ''aluguel'' 10 s1)"
  have b1: "buscar_contratos_try store_breaking ''aluguel'' 10 s1 = (Inl ''first'', t2)"
    unfolding t2_def s1_def prod_eq_iff by (simp del: One_nat_def) code_simp
  define t3 where "t3 = snd (conectar_pinecone store_breaking t2)"
  have b2: "conectar_pinecone store_breaking t2 = (True, t3)"
    unfolding t3_def t2_def s1_def prod_eq_iff by (simp del: One_nat_def) code_simp
  have "fst (buscar_contratos 1 store_breaking ''aluguel'' 10 t3)
          = Inl (HTTPException 500 ''Erro ao realizar a busca: second'')"
    unfolding t3_def t2_def s1_def by code_simp
  from failed_run [OF this] obtain t4 where
    b3: "buscar_contratos 1 store_breaking ''aluguel'' 10 t3
           = (Inl (HTTPException 500 ''Erro ao realizar a busca: second''), t4)"
    by metis
  define u2 where "u2 = snd (listar_arquivos_try store_breaking s1)"
  have c1: "listar_arquivos_try store_breaking s1 = (Inl ''first'', u2)"
    unfolding u2_def s1_def prod_eq_iff by (simp del: One_nat_def) code_simp
  define u3 where "u3 = snd (conectar_pinecone store_breaking u2)"
  have c2: "conectar_pinecone store_breaking u2 = (True, u3)"
    unfolding u3_def u2_def s1_def prod_eq_iff by (simp del: One_nat_def) code_simp
  have "fst (listar_arquivos 1 store_breaking u3)
          = Inl (HTTPException 500 ''Erro ao listar arquivos: second'')"
    unfolding u3_def u2_def s1_def by code_simp
  from failed_run [OF this] obtain u4 where
    c3: "listar_arquivos 1 store_breaking u3
           = (Inl (HTTPException 500 ''Erro ao listar arquivos: second''), u4)"
    by metis
  have q: "''aluguel'' \<noteq> []"
    by simp
  note inst = retry_failure_keeps_first_error [where w = store_breaking
      and s = "loaded store_breaking"
      and n = 1 and skip = 0 and limit = 10 and q = "''aluguel''"
      and ?s1.0 = s1 and ?s2.0 = s2 and ?s3.0 = s3 and ?s4.0 = s4 and e = "''first''"
      and ?t1.0 = s1 and ?t2.0 = t2 and ?t3.0 = t3 and ?t4.0 = t4 and e' = "''first''"
      and ?u1.0 = s1 and ?u2.0 = u2 and ?u3.0 = u3 and ?u4.0 = u4 and e'' = "''first''"
      and x = "HTTPException 500 ''Erro ao listar contratos: second''"
      and x' = "HTTPException 500 ''Erro ao realizar a busca: second''"
      and x'' = "HTTPException 500 ''Erro ao listar arquivos: second''"]
  have "listar_contratos (Suc 1) store_breaking 0 10 (loaded store_breaking)
          = (Inl (HTTPException 500 (''Erro ao listar contratos: '' @ ''first'')), s4)"
    using inst g a1 a2 a3 by (elim conjE) (erule mp, intro conjI)
  moreover have "buscar_contratos (Suc 1) store_breaking ''aluguel'' 10 (loaded store_breaking)
          = (Inl (HTTPException 500 (''Erro ao realizar a busca: '' @ ''first'')), t4)"
    using inst q g b1 b2 b3 by (elim conjE) (erule mp, intro conjI)
  moreover have "listar_arquivos (Suc 1) store_breaking (loaded store_breaking)
          = (Inl (HTTPException 500 (''Erro ao listar arquivos: '' @ ''first'')), u4)"
    using inst g c1 c2 c3 by (elim conjE) (erule mp, intro conjI)
  ultimately show ?thesis
    by (simp del: listar_contratos.simps buscar_contratos.simps listar_arquivos.simps
        add: numeral_2_eq_2)
qed

subsection \<open>How often an operation is run again\<close>

lemma sem_conexao_passed:
  assumes "sem_conexao w s = (False, s1)"
  shows "index s1 \<noteq> None"
proof (cases "index s = None")
  case True
  with assms have "conectar_pinecone w s = (True, s1)"
    by (auto simp: sem_conexao_def split: prod.splits)
  from conectar_events [OF this] show ?thesis
    by auto
next
  case False
  with assms show ?thesis
    by (simp add: sem_conexao_def)
qed

lemma failed_round_Some:
  assumes "failed_round w body s = Some s3"
  shows "\<exists>e s2. body s = (Inl e, s2) \<and> conectar_pinecone w s2 = (True, s3) \<and> index s3 \<noteq> None"
proof -
  obtain r s2 where b: "body s = (r, s2)"
    by (cases "body s")
  with assms obtain e where r: "r = Inl e"
    by (cases r) (simp_all add: failed_round_def)
  obtain ok u where c: "conectar_pinecone w s2 = (ok, u)"
    by (cases "conectar_pinecone w s2")
  with assms b r have "ok" "u = s3"
    by (cases ok; simp add: failed_round_def)+
  with c have c': "conectar_pinecone w s2 = (True, s3)"
    by simp
  from conectar_events [OF c'] have "index s3 \<noteq> None"
    by auto
  with b r c' show ?thesis by blast
qed

lemma failed_rounds_Suc:
  assumes "failed_rounds (Suc k) w body s = Some sk"
  shows "\<exists>s3. failed_round w body s = Some s3 \<and> failed_rounds k w body s3 = Some sk"
  using assms by (cases "failed_round w body s") simp_all

lemma listar_contratos_guard:
  assumes "sem_conexao w s = (False, s1)"
  shows "listar_contratos (Suc n) w skip limit s = listar_contratos (Suc n) w skip limit s1"
proof -
  from sem_conexao_passed [OF assms] have "sem_conexao w s1 = (False, s1)"
    by (rule sem_conexao_handle_set)
  with assms show ?thesis by simp
qed

lemma listar_contratos_step:
  assumes "index s1 \<noteq> None" and "listar_contratos_try w skip limit s1 = (Inl e, s2)"
    and "conectar_pinecone w s2 = (True, s3)"
  shows "listar_contratos (Suc n) w skip limit s1 =
           (case listar_contratos n w skip limit s3 of
              (Inr resp, s4) \<Rightarrow> (Inr resp, s4)
            | (Inl x, s4) \<Rightarrow> (Inl (HTTPException 500 (''Erro ao listar contratos: '' @ e)), s4))"
  using assms sem_conexao_handle_set [of s1 w] by simp

lemma listar_contratos_rounds_success:
  "index s1 \<noteq> None \<Longrightarrow>
   failed_rounds k w (listar_contratos_try w skip limit) s1 = Some sk \<Longrightarrow>
   listar_contratos_try w skip limit sk = (Inr resp, s') \<Longrightarrow> k \<le> n \<Longrightarrow>
     listar_contratos (Suc n) w skip limit s1 = (Inr resp, s')"
proof (induction k arbitrary: s1 n)
  case 0
  then show ?case
    using sem_conexao_handle_set [of s1 w] by simp
next
  case (Suc k)
  from failed_rounds_Suc [OF Suc.prems(2)] obtain s3 where
    r: "failed_round w (listar_contratos_try w skip limit) s1 = Some s3"
    and rest: "failed_rounds k w (listar_contratos_try w skip limit) s3 = Some sk"
    by blast
  from failed_round_Some [OF r] obtain e s2 where
    b: "listar_contratos_try w skip limit s1 = (Inl e, s2)"
       "conectar_pinecone w s2 = (True, s3)" "index s3 \<noteq> None"
    by blast
  from Suc.prems(4) obtain n' where n: "n = Suc n'" "k \<le> n'"
    by (cases n) simp_all
  from Suc.IH [OF b(3) rest Suc.prems(3) n(2)] have
    "listar_contratos (Suc n') w skip limit s3 = (Inr resp, s')" .
  with listar_contratos_step [OF Suc.prems(1) b(1,2), of "Suc n'"] n show ?case
    by (simp del: listar_contratos.simps)
qed

lemma listar_contratos_rounds_failure:
  "index s1 \<noteq> None \<Longrightarrow>
   failed_rounds k w (listar_contratos_try w skip limit) s1 = Some sk \<Longrightarrow>
   listar_contratos_try w skip limit sk = (Inl e, s2) \<Longrightarrow>
   conectar_pinecone w s2 = (False, s3) \<Longrightarrow> k \<le> n \<Longrightarrow>
     \<exists>x. listar_contratos (Suc n) w skip limit s1 = (Inl x, s3)"
proof (induction k arbitrary: s1 n)
  case 0
  then show ?case
    using sem_conexao_handle_set [of s1 w] by simp
next
  case (Suc k)
  from failed_rounds_Suc [OF Suc.prems(2)] obtain t3 where
    r: "failed_round w (listar_contratos_try w skip limit) s1 = Some t3"
    and rest: "failed_rounds k w (listar_contratos_try w skip limit) t3 = Some sk"
    by blast
  from failed_round_Some [OF r] obtain e1 t2 where
    b: "listar_contratos_try w skip limit s1 = (Inl e1, t2)"
       "conectar_pinecone w t2 = (True, t3)" "index t3 \<noteq> None"
    by blast
  from Suc.prems(5) obtain n' where n: "n = Suc n'" "k \<le> n'"
    by (cases n) simp_all
  from Suc.IH [OF b(3) rest Suc.prems(3,4) n(2)] obtain x where
    "listar_contratos (Suc n') w skip limit t3 = (Inl x, s3)"
    by blast
  with listar_contratos_step [OF Suc.prems(1) b(1,2), of "Suc n'"] n show ?case
    by (simp del: listar_contratos.simps)
qed

lemma listar_contratos_rounds_limit:
  "index s1 \<noteq> None \<Longrightarrow>
   failed_rounds (Suc n) w (listar_contratos_try w skip limit) s1 = Some sk \<Longrightarrow>
     \<exists>x. listar_contratos (Suc n) w skip limit s1 = (Inl x, sk)"
proof (induction n arbitrary: s1)
  case 0
  from failed_rounds_Suc [OF 0(2)] have
    r: "failed_round w (listar_contratos_try w skip limit) s1 = Some sk"
    by simp
  from failed_round_Some [OF r] obtain e s2 where
    b: "listar_contratos_try w skip limit s1 = (Inl e, s2)"
       "conectar_pinecone w s2 = (True, sk)"
    by blast
  from listar_contratos_step [OF 0(1) b, of 0] show ?case
    by simp
next
  case (Suc n)
  from failed_rounds_Suc [OF Suc.prems(2)] obtain t3 where
    r: "failed_round w (listar_contratos_try w skip limit) s1 = Some t3"
    and rest: "failed_rounds (Suc n) w (listar_contratos_try w skip limit) t3 = Some sk"
    by blast
  from failed_round_Some [OF r] obtain e1 t2 where
    b: "listar_contratos_try w skip limit s1 = (Inl e1, t2)"
       "conectar_pinecone w t2 = (True, t3)" "index t3 \<noteq> None"
    by blast
  from Suc.IH [OF b(3) rest] obtain x where
    "listar_contratos (Suc n) w skip limit t3 = (Inl x, sk)"
    by blast
  with listar_contratos_step [OF Suc.prems(1) b(1,2), of "Suc n"] show ?case
    by (simp del: listar_contratos.simps)
qed

lemma listar_contratos_first_error:
  assumes "index s1 \<noteq> None" and "fst (listar_contratos_try w skip limit s1) = Inl e0"
    and "listar_contratos (Suc n) w skip limit s1 = (Inl x, sf)"
  shows "x = HTTPException 500 (''Erro ao listar contratos: '' @ e0)"
proof -
  obtain s2 where b: "listar_contratos_try w skip limit s1 = (Inl e0, s2)"
    using assms(2) by (cases "listar_contratos_try w skip limit s1") simp
  obtain ok s3 where c: "conectar_pinecone w s2 = (ok, s3)"
    by (cases "conectar_pinecone w s2")
  from assms(1,3) b c sem_conexao_handle_set [of s1 w] show ?thesis
    by (cases ok) (auto split: prod.splits sum.splits)
qed

lemma buscar_contratos_guard:
  assumes "sem_conexao w s = (False, s1)" and "q \<noteq> []"
  shows "buscar_contratos (Suc n) w q limit s = buscar_contratos (Suc n) w q limit s1"
proof -
  from sem_conexao_passed [OF assms(1)] have "sem_conexao w s1 = (False, s1)"
    by (rule sem_conexao_handle_set)
  with assms show ?thesis by simp
qed

lemma buscar_contratos_step:
  assumes "index s1 \<noteq> None" and "buscar_contratos_try w q limit s1 = (Inl e, s2)"
    and "conectar_pinecone w s2 = (True, s3)" and "q \<noteq> []"
  shows "buscar_contratos (Suc n) w q limit s1 =
           (case buscar_contratos n w q limit s3 of
              (Inr resp, s4) \<Rightarrow> (Inr resp, s4)
            | (Inl x, s4) \<Rightarrow> (Inl (HTTPException 500 (''Erro ao realizar a busca: '' @ e)), s4))"
  using assms sem_conexao_handle_set [of s1 w] by simp

lemma buscar_contratos_rounds_success:
  "index s1 \<noteq> None \<Longrightarrow>
   failed_rounds k w (buscar_contratos_try w q limit) s1 = Some sk \<Longrightarrow>
   buscar_contratos_try w q limit sk = (Inr resp, s') \<Longrightarrow> k \<le> n \<Longrightarrow> q \<noteq> [] \<Longrightarrow>
     buscar_contratos (Suc n) w q limit s1 = (Inr resp, s')"
proof (induction k arbitrary: s1 n)
  case 0
  then show ?case
    using sem_conexao_handle_set [of s1 w] by simp
next
  case (Suc k)
  from failed_rounds_Suc [OF Suc.prems(2)] obtain s3 where
    r: "failed_round w (buscar_contratos_try w q limit) s1 = Some s3"
    and rest: "failed_rounds k w (buscar_contratos_try w q limit) s3 = Some sk"
    by blast
  from failed_round_Some [OF r] obtain e s2 where
    b: "buscar_contratos_try w q limit s1 = (Inl e, s2)"
       "conectar_pinecone w s2 = (True, s3)" "index s3 \<noteq> None"
    by blast
  from Suc.prems(4) obtain n' where n: "n = Suc n'" "k \<le> n'"
    by (cases n) simp_all
  from Suc.IH [OF b(3) rest Suc.prems(3) n(2) Suc.prems(5)] have
    "buscar_contratos (Suc n') w q limit s3 = (Inr resp, s')" .
  with buscar_contratos_step [OF Suc.prems(1) b(1,2) Suc.prems(5), of "Suc n'"] n show ?case
    by (simp del: buscar_contratos.simps)
qed

lemma buscar_contratos_rounds_failure:
  "index s1 \<noteq> None \<Longrightarrow>
   failed_rounds k w (buscar_contratos_try w q limit) s1 = Some sk \<Longrightarrow>
   buscar_contratos_try w q limit sk = (Inl e, s2) \<Longrightarrow>
   conectar_pinecone w s2 = (False, s3) \<Longrightarrow> k \<le> n \<Longrightarrow> q \<noteq> [] \<Longrightarrow>
     \<exists>x. buscar_contratos (Suc n) w q limit s1 = (Inl x, s3)"
proof (induction k arbitrary: s1 n)
  case 0
  then show ?case
    using sem_conexao_handle_set [of s1 w] by simp
next
  case (Suc k)
  from failed_rounds_Suc [OF Suc.prems(2)] obtain t3 where
    r: "failed_round w (buscar_contratos_try w q limit) s1 = Some t3"
    and rest: "failed_rounds k w (buscar_contratos_try w q limit) t3 = Some sk"
    by blast
  from failed_round_Some [OF r] obtain e1 t2 where
    b: "buscar_contratos_try w q limit s1 = (Inl e1, t2)"
       "conectar_pinecone w t2 = (True, t3)" "index t3 \<noteq> None"
    by blast
  from Suc.prems(5) obtain n' where n: "n = Suc n'" "k \<le> n'"
    by (cases n) simp_all
  from Suc.IH [OF b(3) rest Suc.prems(3,4) n(2) Suc.prems(6)] obtain x where
    "buscar_contratos (Suc n') w q limit t3 = (Inl x, s3)"
    by blast
  with buscar_contratos_step [OF Suc.prems(1) b(1,2) Suc.prems(6), of "Suc n'"] n show ?case
    by (simp del: buscar_contratos.simps)
qed

lemma buscar_contratos_rounds_limit:
  "index s1 \<noteq> None \<Longrightarrow>
   failed_rounds (Suc n) w (buscar_contratos_try w q limit) s1 = Some sk \<Longrightarrow> q \<noteq> [] \<Longrightarrow>
     \<exists>x. buscar_contratos (Suc n) w q limit s1 = (Inl x, sk)"
proof (induction n arbitrary: s1)
  case 0
  from failed_rounds_Suc [OF 0(2)] have
    r: "failed_round w (buscar_contratos_try w q limit) s1 = Some sk"
    by simp
  from failed_round_Some [OF r] obtain e s2 where
    b: "buscar_contratos_try w q limit s1 = (Inl e, s2)"
       "conectar_pinecone w s2 = (True, sk)"
    by blast
  from buscar_contratos_step [OF 0(1) b 0(3), of 0] show ?case
    by simp
next
  case (Suc n)
  from failed_rounds_Suc [OF Suc.prems(2)] obtain t3 where
    r: "failed_round w (buscar_contratos_try w q limit) s1 = Some t3"
    and rest: "failed_rounds (Suc n) w (buscar_contratos_try w q limit) t3 = Some sk"
    by blast
  from failed_round_Some [OF r] obtain e1 t2 where
    b: "buscar_contratos_try w q limit s1 = (Inl e1, t2)"
       "conectar_pinecone w t2 = (True, t3)" "index t3 \<noteq> None"
    by blast
  from Suc.IH [OF b(3) rest Suc.prems(3)] obtain x where
    "buscar_contratos (Suc n) w q limit t3 = (Inl x, sk)"
    by blast
  with buscar_contratos_step [OF Suc.prems(1) b(1,2) Suc.prems(3), of "Suc n"] show ?case
    by (simp del: buscar_contratos.simps)
qed

lemma buscar_contratos_first_error:
  assumes "index s1 \<noteq> None" and "fst (buscar_contratos_try w q limit s1) = Inl e0"
    and "buscar_contratos (Suc n) w q limit s1 = (Inl x, sf)" and "q \<noteq> []"
  shows "x = HTTPException 500 (''Erro ao realizar a busca: '' @ e0)"
proof -
  obtain s2 where b: "buscar_contratos_try w q limit s1 = (Inl e0, s2)"
    using assms(2) by (cases "buscar_contratos_try w q limit s1") simp
  obtain ok s3 where c: "conectar_pinecone w s2 = (ok, s3)"
    by (cases "conectar_pinecone w s2")
  from assms(1,3,4) b c sem_conexao_handle_set [of s1 w] show ?thesis
    by (cases ok) (auto split: prod.splits sum.splits)
qed

lemma listar_arquivos_guard:
  assumes "sem_conexao w s = (False, s1)"
  shows "listar_arquivos (Suc n) w s = listar_arquivos (Suc n) w s1"
proof -
  from sem_conexao_passed [OF assms] have "sem_conexao w s1 = (False, s1)"
    by (rule sem_conexao_handle_set)
  with assms show ?thesis by simp
qed

lemma listar_arquivos_step:
  assumes "index s1 \<noteq> None" and "listar_arquivos_try w s1 = (Inl e, s2)"
    and "conectar_pinecone w s2 = (True, s3)"
  shows "listar_arquivos (Suc n) w s1 =
           (case listar_arquivos n w s3 of
              (Inr resp, s4) \<Rightarrow> (Inr resp, s4)
            | (Inl x, s4) \<Rightarrow> (Inl (HTTPException 500 (''Erro ao listar arquivos: '' @ e)), s4))"
  using assms sem_conexao_handle_set [of s1 w] by simp

lemma listar_arquivos_rounds_success:
  "index s1 \<noteq> None \<Longrightarrow>
   failed_rounds k w (listar_arquivos_try w) s1 = Some sk \<Longrightarrow>
   listar_arquivos_try w sk = (Inr resp, s') \<Longrightarrow> k \<le> n \<Longrightarrow>
     listar_arquivos (Suc n) w s1 = (Inr resp, s')"
proof (induction k arbitrary: s1 n)
  case 0
  then show ?case
    using sem_conexao_handle_set [of s1 w] by simp
next
  case (Suc k)
  from failed_rounds_Suc [OF Suc.prems(2)] obtain s3 where
    r: "failed_round w (listar_arquivos_try w) s1 = Some s3"
    and rest: "failed_rounds k w (listar_arquivos_try w) s3 = Some sk"
    by blast
  from failed_round_Some [OF r] obtain e s2 where
    b: "listar_arquivos_try w s1 = (Inl e, s2)"
       "conectar_pinecone w s2 = (True, s3)" "index s3 \<noteq> None"
    by blast
  from Suc.prems(4) obtain n' where n: "n = Suc n'" "k \<le> n'"
    by (cases n) simp_all
  from Suc.IH [OF b(3) rest Suc.prems(3) n(2)] have
    "listar_arquivos (Suc n') w s3 = (Inr resp, s')" .
  with listar_arquivos_step [OF Suc.prems(1) b(1,2), of "Suc n'"] n show ?case
    by (simp del: listar_arquivos.simps)
qed

lemma listar_arquivos_rounds_failure:
  "index s1 \<noteq> None \<Longrightarrow>
   failed_rounds k w (listar_arquivos_try w) s1 = Some sk \<Longrightarrow>
   listar_arquivos_try w sk = (Inl e, s2) \<Longrightarrow>
   conectar_pinecone w s2 = (False, s3) \<Longrightarrow> k \<le> n \<Longrightarrow>
     \<exists>x. listar_arquivos (Suc n) w s1 = (Inl x, s3)"
proof (induction k arbitrary: s1 n)
  case 0
  then show ?case
    using sem_conexao_handle_set [of s1 w] by simp
next
  case (Suc k)
  from failed_rounds_Suc [OF Suc.prems(2)] obtain t3 where
    r: "failed_round w (listar_arquivos_try w) s1 = Some t3"
    and rest: "failed_rounds k w (listar_arquivos_try w) t3 = Some sk"
    by blast
  from failed_round_Some [OF r] obtain e1 t2 where
    b: "listar_arquivos_try w s1 = (Inl e1, t2)"
       "conectar_pinecone w t2 = (True, t3)" "index t3 \<noteq> None"
    by blast
  from Suc.prems(5) obtain n' where n: "n = Suc n'" "k \<le> n'"
    by (cases n) simp_all
  from Suc.IH [OF b(3) rest Suc.prems(3,4) n(2)] obtain x where
    "listar_arquivos (Suc n') w t3 = (Inl x, s3)"
    by blast
  with listar_arquivos_step [OF Suc.prems(1) b(1,2), of "Suc n'"] n show ?case
    by (simp del: listar_arquivos.simps)
qed

lemma listar_arquivos_rounds_limit:
  "index s1 \<noteq> None \<Longrightarrow>
   failed_rounds (Suc n) w (listar_arquivos_try w) s1 = Some sk \<Longrightarrow>
     \<exists>x. listar_arquivos (Suc n) w s1 = (Inl x, sk)"
proof (induction n arbitrary: s1)
  case 0
  from failed_rounds_Suc [OF 0(2)] have
    r: "failed_round w (listar_arquivos_try w) s1 = Some sk"
    by simp
  from failed_round_Some [OF r] obtain e s2 where
    b: "listar_arquivos_try w s1 = (Inl e, s2)"
       "conectar_pinecone w s2 = (True, sk)"
    by blast
  from listar_arquivos_step [OF 0(1) b, of 0] show ?case
    by simp
next
  case (Suc n)
  from failed_rounds_Suc [OF Suc.prems(2)] obtain t3 where
    r: "failed_round w (listar_arquivos_try w) s1 = Some t3"
    and rest: "failed_rounds (Suc n) w (listar_arquivos_try w) t3 = Some sk"
    by blast
  from failed_round_Some [OF r] obtain e1 t2 where
    b: "listar_arquivos_try w s1 = (Inl e1, t2)"
       "conectar_pinecone w t2 = (True, t3)" "index t3 \<noteq> None"
    by blast
  from Suc.IH [OF b(3) rest] obtain x where
    "listar_arquivos (Suc n) w t3 = (Inl x, sk)"
    by blast
  with listar_arquivos_step [OF Suc.prems(1) b(1,2), of "Suc n"] show ?case
    by (simp del: listar_arquivos.simps)
qed

lemma listar_arquivos_first_error:
  assumes "index s1 \<noteq> None" and "fst (listar_arquivos_try w s1) = Inl e0"
    and "listar_arquivos (Suc n) w s1 = (Inl x, sf)"
  shows "x = HTTPException 500 (''Erro ao listar arquivos: '' @ e0)"
proof -
  obtain s2 where b: "listar_arquivos_try w s1 = (Inl e0, s2)"
    using assms(2) by (cases "listar_arquivos_try w s1") simp
  obtain ok s3 where c: "conectar_pinecone w s2 = (ok, s3)"
    by (cases "conectar_pinecone w s2")
  from assms(1,3) b c sem_conexao_handle_set [of s1 w] show ?thesis
    by (cases ok) (auto split: prod.splits sum.splits)
qed

lemma listar_contratos_retries:
  "(sem_conexao w s = (False, s1)
      \<and> failed_rounds k w (listar_contratos_try w skip limit) s1 = Some sk \<and> k \<le> n
      \<and> listar_contratos_try w skip limit sk = (Inr resp, s')
     \<longrightarrow> listar_contratos (Suc n) w skip limit s = (Inr resp, s'))
   \<and> (sem_conexao w s = (False, s1)
      \<and> failed_rounds k w (listar_contratos_try w skip limit) s1 = Some sk \<and> k \<le> n
      \<and> listar_contratos_try w skip limit sk = (Inl e, s2)
      \<and> conectar_pinecone w s2 = (False, s3)
      \<and> fst (listar_contratos_try w skip limit s1) = Inl e0
     \<longrightarrow> listar_contratos (Suc n) w skip limit s
           = (Inl (HTTPException 500 (''Erro ao listar contratos: '' @ e0)), s3))
   \<and> (sem_conexao w s = (False, s1)
      \<and> failed_rounds (Suc n) w (listar_contratos_try w skip limit) s1 = Some sk
      \<and> fst (listar_contratos_try w skip limit s1) = Inl e0
     \<longrightarrow> listar_contratos (Suc n) w skip limit s
           = (Inl (HTTPException 500 (''Erro ao listar contratos: '' @ e0)), sk))"
proof (intro conjI impI)
  assume a: "sem_conexao w s = (False, s1)
      \<and> failed_rounds k w (listar_contratos_try w skip limit) s1 = Some sk \<and> k \<le> n
      \<and> listar_contratos_try w skip limit sk = (Inr resp, s')"
  then have i: "index s1 \<noteq> None"
    using sem_conexao_passed by blast
  from a listar_contratos_rounds_success [OF i, of k w skip limit sk resp s' n]
    listar_contratos_guard [of w s s1 n skip limit]
  show "listar_contratos (Suc n) w skip limit s = (Inr resp, s')"
    by (simp del: listar_contratos.simps)
next
  assume a: "sem_conexao w s = (False, s1)
      \<and> failed_rounds k w (listar_contratos_try w skip limit) s1 = Some sk \<and> k \<le> n
      \<and> listar_contratos_try w skip limit sk = (Inl e, s2)
      \<and> conectar_pinecone w s2 = (False, s3)
      \<and> fst (listar_contratos_try w skip limit s1) = Inl e0"
  then have i: "index s1 \<noteq> None"
    using sem_conexao_passed by blast
  from a listar_contratos_rounds_failure [OF i, of k w skip limit sk e s2 s3 n] obtain x where
    x: "listar_contratos (Suc n) w skip limit s1 = (Inl x, s3)"
    by blast
  from a listar_contratos_first_error [OF i _ x] have
    "x = HTTPException 500 (''Erro ao listar contratos: '' @ e0)"
    by blast
  with a x listar_contratos_guard [of w s s1 n skip limit]
  show "listar_contratos (Suc n) w skip limit s
          = (Inl (HTTPException 500 (''Erro ao listar contratos: '' @ e0)), s3)"
    by (simp del: listar_contratos.simps)
next
  assume a: "sem_conexao w s = (False, s1)
      \<and> failed_rounds (Suc n) w (listar_contratos_try w skip limit) s1 = Some sk
      \<and> fst (listar_contratos_try w skip limit s1) = Inl e0"
  then have i: "index s1 \<noteq> None"
    using sem_conexao_passed by blast
  from a listar_contratos_rounds_limit [OF i, of n w skip limit sk] obtain x where
    x: "listar_contratos (Suc n) w skip limit s1 = (Inl x, sk)"
    by blast
  from a listar_contratos_first_error [OF i _ x] have
    "x = HTTPException 500 (''Erro ao listar contratos: '' @ e0)"
    by blast
  with a x listar_contratos_guard [of w s s1 n skip limit]
  show "listar_contratos (Suc n) w skip limit s
          = (Inl (HTTPException 500 (''Erro ao listar contratos: '' @ e0)), sk)"
    by (simp del: listar_contratos.simps)
qed

lemma buscar_contratos_retries:
  "(q \<noteq> [] \<and> sem_conexao w s = (False, s1)
      \<and> failed_rounds k w (buscar_contratos_try w q limit) s1 = Some sk \<and> k \<le> n
      \<and> buscar_contratos_try w q limit sk = (Inr resp, s')
     \<longrightarrow> buscar_contratos (Suc n) w q limit s = (Inr resp, s'))
   \<and> (q \<noteq> [] \<and> sem_conexao w s = (False, s1)
      \<and> failed_rounds k w (buscar_contratos_try w q limit) s1 = Some sk \<and> k \<le> n
      \<and> buscar_contratos_try w q limit sk = (Inl e, s2)
      \<and> conectar_pinecone w s2 = (False, s3)
      \<and> fst (buscar_contratos_try w q limit s1) = Inl e0
     \<longrightarrow> buscar_contratos (Suc n) w q limit s
           = (Inl (HTTPException 500 (''Erro ao realizar a busca: '' @ e0)), s3))
   \<and> (q \<noteq> [] \<and> sem_conexao w s = (False, s1)
      \<and> failed_rounds (Suc n) w (buscar_contratos_try w q limit) s1 = Some sk
      \<and> fst (buscar_contratos_try w q limit s1) = Inl e0
     \<longrightarrow> buscar_contratos (Suc n) w q limit s
           = (Inl (HTTPException 500 (''Erro ao realizar a busca: '' @ e0)), sk))"
proof (intro conjI impI)
  assume a: "q \<noteq> [] \<and> sem_conexao w s = (False, s1)
      \<and> failed_rounds k w (buscar_contratos_try w q limit) s1 = Some sk \<and> k \<le> n
      \<and> buscar_contratos_try w q limit sk = (Inr resp, s')"
  then have i: "index s1 \<noteq> None"
    using sem_conexao_passed by blast
  from a buscar_contratos_rounds_success [OF i, of k w q limit sk resp s' n]
    buscar_contratos_guard [of w s s1 q n limit]
  show "buscar_contratos (Suc n) w q limit s = (Inr resp, s')"
    by (simp del: buscar_contratos.simps)
next
  assume a: "q \<noteq> [] \<and> sem_conexao w s = (False, s1)
      \<and> failed_rounds k w (buscar_contratos_try w q limit) s1 = Some sk \<and> k \<le> n
      \<and> buscar_contratos_try w q limit sk = (Inl e, s2)
      \<and> conectar_pinecone w s2 = (False, s3)
      \<and> fst (buscar_contratos_try w q limit s1) = Inl e0"
  then have i: "index s1 \<noteq> None"
    using sem_conexao_passed by blast
  from a buscar_contratos_rounds_failure [OF i, of k w q limit sk e s2 s3 n] obtain x where
    x: "buscar_contratos (Suc n) w q limit s1 = (Inl x, s3)"
    by blast
  from a buscar_contratos_first_error [OF i _ x] have
    "x = HTTPException 500 (''Erro ao realizar a busca: '' @ e0)"
    by blast
  with a x buscar_contratos_guard [of w s s1 q n limit]
  show "buscar_contratos (Suc n) w q limit s
          = (Inl (HTTPException 500 (''Erro ao realizar a busca: '' @ e0)), s3)"
    by (simp del: buscar_contratos.simps)
next
  assume a: "q \<noteq> [] \<and> sem_conexao w s = (False, s1)
      \<and> failed_rounds (Suc n) w (buscar_contratos_try w q limit) s1 = Some sk
      \<and> fst (buscar_contratos_try w q limit s1) = Inl e0"
  then have i: "index s1 \<noteq> None"
    using sem_conexao_passed by blast
  from a buscar_contratos_rounds_limit [OF i, of n w q limit sk] obtain x where
    x: "buscar_contratos (Suc n) w q limit s1 = (Inl x, sk)"
    by blast
  from a buscar_contratos_first_error [OF i _ x] have
    "x = HTTPException 500 (''Erro ao realizar a busca: '' @ e0)"
    by blast
  with a x buscar_contratos_guard [of w s s1 q n limit]
  show "buscar_contratos (Suc n) w q limit s
          = (Inl (HTTPException 500 (''Erro ao realizar a busca: '' @ e0)), sk)"
    by (simp del: buscar_contratos.simps)
qed

lemma listar_arquivos_retries:
  "(sem_conexao w s = (False, s1)
      \<and> failed_rounds k w (listar_arquivos_try w) s1 = Some sk \<and> k \<le> n
      \<and> listar_arquivos_try w sk = (Inr fs, s')
     \<longrightarrow> listar_arquivos (Suc n) w s = (Inr fs, s'))
   \<and> (sem_conexao w s = (False, s1)
      \<and> failed_rounds k w (listar_arquivos_try w) s1 = Some sk \<and> k \<le> n
      \<and> listar_arquivos_try w sk = (Inl e, s2)
      \<and> conectar_pinecone w s2 = (False, s3)
      \<and> fst (listar_arquivos_try w s1) = Inl e0
     \<longrightarrow> listar_arquivos (Suc n) w s
           = (Inl (HTTPException 500 (''Erro ao listar arquivos: '' @ e0)), s3))
   \<and> (sem_conexao w s = (False, s1)
      \<and> failed_rounds (Suc n) w (listar_arquivos_try w) s1 = Some sk
      \<and> fst (listar_arquivos_try w s1) = Inl e0
     \<longrightarrow> listar_arquivos (Suc n) w s
           = (Inl (HTTPException 500 (''Erro ao listar arquivos: '' @ e0)), sk))"
proof (intro conjI impI)
  assume a: "sem_conexao w s = (False, s1)
      \<and> failed_rounds k w (listar_arquivos_try w) s1 = Some sk \<and> k \<le> n
      \<and> listar_arquivos_try w sk = (Inr fs, s')"
  then have i: "index s1 \<noteq> None"
    using sem_conexao_passed by blast
  from a listar_arquivos_rounds_success [OF i, of k w sk fs s' n]
    listar_arquivos_guard [of w s s1 n]
  show "listar_arquivos (Suc n) w s = (Inr fs, s')"
    by (simp del: listar_arquivos.simps)
next
  assume a: "sem_conexao w s = (False, s1)
      \<and> failed_rounds k w (listar_arquivos_try w) s1 = Some sk \<and> k \<le> n
      \<and> listar_arquivos_try w sk = (Inl e, s2)
      \<and> conectar_pinecone w s2 = (False, s3)
      \<and> fst (listar_arquivos_try w s1) = Inl e0"
  then have i: "index s1 \<noteq> None"
    using sem_conexao_passed by blast
  from a listar_arquivos_rounds_failure [OF i, of k w sk e s2 s3 n] obtain x where
    x: "listar_arquivos (Suc n) w s1 = (Inl x, s3)"
    by blast
  from a listar_arquivos_first_error [OF i _ x] have
    "x = HTTPException 500 (''Erro ao listar arquivos: '' @ e0)"
    by blast
  with a x listar_arquivos_guard [of w s s1 n]
  show "listar_arquivos (Suc n) w s
          = (Inl (HTTPException 500 (''Erro ao listar arquivos: '' @ e0)), s3)"
    by (simp del: listar_arquivos.simps)
next
  assume a: "sem_conexao w s = (False, s1)
      \<and> failed_rounds (Suc n) w (listar_arquivos_try w) s1 = Some sk
      \<and> fst (listar_arquivos_try w s1) = Inl e0"
  then have i: "index s1 \<noteq> None"
    using sem_conexao_passed by blast
  from a listar_arquivos_rounds_limit [OF i, of n w sk] obtain x where
    x: "listar_arquivos (Suc n) w s1 = (Inl x, sk)"
    by blast
  from a listar_arquivos_first_error [OF i _ x] have
    "x = HTTPException 500 (''Erro ao listar arquivos: '' @ e0)"
    by blast
  with a x listar_arquivos_guard [of w s s1 n]
  show "listar_arquivos (Suc n) w s
          = (Inl (HTTPException 500 (''Erro ao listar arquivos: '' @ e0)), sk)"
    by (simp del: listar_arquivos.simps)
qed

text \<open>
  Claim C3, as the code has it. After the guard the \<^verbatim>\<open>try\<close> block is run. When it raises,
  \<^verbatim>\<open>conectar_pinecone\<close> is called once: if it returns \<^verbatim>\<open>False\<close> the operation raises status
  500 with the text of its first failure and runs nothing more; if it returns \<^verbatim>\<open>True\<close> the
  operation calls itself with the same arguments, and the nested call, whose guard
  passes, does the same. The code holds no counter or flag that would stop the nesting at
  depth one. So for each of the three operations (the search being given a query that is
  not empty), with \<open>k\<close> rounds in a row in which the block raised and the reconnection
  succeeded:
  \<^item> if the next run of the block returns a response, the operation returns that
    response, after \<open>k\<close> automatic retries;
  \<^item> if the next run of the block raises and the reconnection fails, the operation
    raises status 500 with the text of the first failure, in the state that reconnection
    left;
  \<^item> the number \<open>k\<close> of retries is bounded by the recursion limit alone: when every frame
    the limit has room for has failed and reconnected, the innermost call raises
    \<^verbatim>\<open>RecursionError\<close> and the operation raises status 500 with the text of the first
    failure.
\<close>

theorem retries_follow_failures:
  "(sem_conexao w s = (False, s1)
      \<and> failed_rounds k w (listar_contratos_try w skip limit) s1 = Some sk \<and> k \<le> n
      \<and> listar_contratos_try w skip limit sk = (Inr resp, s')
     \<longrightarrow> listar_contratos (Suc n) w skip limit s = (Inr resp, s'))
   \<and> (sem_conexao w s = (False, s1)
      \<and> failed_rounds k w (listar_contratos_try w skip limit) s1 = Some sk \<and> k \<le> n
      \<and> listar_contratos_try w skip limit sk = (Inl e, s2)
      \<and> conectar_pinecone w s2 = (False, s3)
      \<and> fst (listar_contratos_try w skip limit s1) = Inl e0
     \<longrightarrow> listar_contratos (Suc n) w skip limit s
           = (Inl (HTTPException 500 (''Erro ao listar contratos: '' @ e0)), s3))
   \<and> (sem_conexao w s = (False, s1)
      \<and> failed_rounds (Suc n) w (listar_contratos_try w skip limit) s1 = Some sk
      \<and> fst (listar_contratos_try w skip limit s1) = Inl e0
     \<longrightarrow> listar_contratos (Suc n) w skip limit s
           = (Inl (HTTPException 500 (''Erro ao listar contratos: '' @ e0)), sk))
   \<and> (q \<noteq> [] \<and> sem_conexao w s = (False, s1)
      \<and> failed_rounds k w (buscar_contratos_try w q limit) s1 = Some sk \<and> k \<le> n
      \<and> buscar_contratos_try w q limit sk = (Inr resp, s')
     \<longrightarrow> buscar_contratos (Suc n) w q limit s = (Inr resp, s'))
   \<and> (q \<noteq> [] \<and> sem_conexao w s = (False, s1)
      \<and> failed_rounds k w (buscar_contratos_try w q limit) s1 = Some sk \<and> k \<le> n
      \<and> buscar_contratos_try w q limit sk = (Inl e, s2)
      \<and> conectar_pinecone w s2 = (False, s3)
      \<and> fst (buscar_contratos_try w q limit s1) = Inl e0
     \<longrightarrow> buscar_contratos (Suc n) w q limit s
           = (Inl (HTTPException 500 (''Erro ao realizar a busca: '' @ e0)), s3))
   \<and> (q \<noteq> [] \<and> sem_conexao w s = (False, s1)
      \<and> failed_rounds (Suc n) w (buscar_contratos_try w q limit) s1 = Some sk
      \<and> fst (buscar_contratos_try w q limit s1) = Inl e0
     \<longrightarrow> buscar_contratos (Suc n) w q limit s
           = (Inl (HTTPException 500 (''Erro ao realizar a busca: '' @ e0)), sk))
   \<and> (sem_conexao w s = (False, s1)
      \<and> failed_rounds k w (listar_arquivos_try w) s1 = Some sk \<and> k \<le> n
      \<and> listar_arquivos_try w sk = (Inr fs, s')
     \<longrightarrow> listar_arquivos (Suc n) w s = (Inr fs, s'))
   \<and> (sem_conexao w s = (False, s1)
      \<and> failed_rounds k w (listar_arquivos_try w) s1 = Some sk \<and> k \<le> n
      \<and> listar_arquivos_try w sk = (Inl e, s2)
      \<and> conectar_pinecone w s2 = (False, s3)
      \<and> fst (listar_arquivos_try w s1) = Inl e0
     \<longrightarrow> listar_arquivos (Suc n) w s
           = (Inl (HTTPException 500 (''Erro ao listar arquivos: '' @ e0)), s3))
   \<and> (sem_conexao w s = (False, s1)
      \<and> failed_rounds (Suc n) w (listar_arquivos_try w) s1 = Some sk
      \<and> fst (listar_arquivos_try w s1) = Inl e0
     \<longrightarrow> listar_arquivos (Suc n) w s
           = (Inl (HTTPException 500 (''Erro ao listar arquivos: '' @ e0)), sk))"
proof -
  note a = listar_contratos_retries [of w s s1 k skip limit sk n resp s' e s2 s3 e0]
  note b = buscar_contratos_retries [of q w s s1 k limit sk n resp s' e s2 s3 e0]
  note c = listar_arquivos_retries [of w s s1 k sk n fs s' e s2 s3 e0]
  show ?thesis
    by (intro conjI)
      (rule a [THEN conjunct1], rule a [THEN conjunct2, THEN conjunct1],
       rule a [THEN conjunct2, THEN conjunct2],
       rule b [THEN conjunct1], rule b [THEN conjunct2, THEN conjunct1],
       rule b [THEN conjunct2, THEN conjunct2],
       rule c [THEN conjunct1], rule c [THEN conjunct2, THEN conjunct1],
       rule c [THEN conjunct2, THEN conjunct2])
qed

text \<open>The sample store, its first two queries failing, after the module is loaded. With
  room for three frames each operation is retried twice and returns the response of its
  third run; with room for two, the listing raises status 500 with the first text. On
  the store that breaks, the second reconnection fails and the listing stops there.\<close>

theorem retries_follow_failures_witness:
  "(\<exists>resp s'. listar_contratos 3 store_flaky 1 2 (loaded store_flaky) = (Inr resp, s')
       \<and> map arquivo (resultados resp) = ['''', ''a.pdf''] \<and> total resp = 5
       \<and> calls is_query s' = 3)
   \<and> (\<exists>resp s'. buscar_contratos 3 store_flaky ''aluguel'' 3 (loaded store_flaky) = (Inr resp, s')
       \<and> map score (resultados resp) = [9, 7, 7] \<and> calls is_query s' = 3)
   \<and> (\<exists>fs s'. listar_arquivos 3 store_flaky (loaded store_flaky) = (Inr fs, s')
       \<and> set fs = {''a.pdf'', ''b.pdf''} \<and> calls is_query s' = 3)
   \<and> fst (listar_contratos 2 store_flaky 1 2 (loaded store_flaky))
       = Inl (HTTPException 500 ''Erro ao listar contratos: stale'')
   \<and> fst (listar_contratos 2 store_breaking 0 10 (loaded store_breaking))
       = Inl (HTTPException 500 ''Erro ao listar contratos: first'')"
proof -
  define s where "s = loaded store_flaky"
  have g: "sem_conexao store_flaky s = (False, s)"
    unfolding s_def by code_simp
  have two: "(2::nat) \<le> 2"
    by simp
  \<comment> \<open>the listing\<close>
  define sk where
    "sk = the (failed_rounds 2 store_flaky (listar_contratos_try store_flaky 1 2) s)"
  define resp where "resp = projr (fst (listar_contratos_try store_flaky 1 2 sk))"
  define s' where "s' = snd (listar_contratos_try store_flaky 1 2 sk)"
  have "failed_rounds 2 store_flaky (listar_contratos_try store_flaky 1 2) s \<noteq> None"
    unfolding s_def by code_simp
  then have r: "failed_rounds 2 store_flaky (listar_contratos_try store_flaky 1 2) s = Some sk"
    unfolding sk_def by simp
  have "\<not> isl (fst (listar_contratos_try store_flaky 1 2 sk))"
    unfolding sk_def s_def by code_simp
  then have t: "listar_contratos_try store_flaky 1 2 sk = (Inr resp, s')"
    unfolding resp_def s'_def by (simp add: prod_eq_iff)
  have p: "map arquivo (resultados resp) = ['''', ''a.pdf''] \<and> total resp = 5
      \<and> calls is_query s' = 3"
    unfolding resp_def s'_def sk_def s_def by code_simp
  have "listar_contratos (Suc 2) store_flaky 1 2 s = (Inr resp, s')"
    by (rule retries_follow_failures [where ?s1.0 = s and k = 2 and sk = sk,
          THEN conjunct1, THEN mp])
      (intro conjI g r two t)
  with p have 1: "\<exists>resp s'. listar_contratos 3 store_flaky 1 2 s = (Inr resp, s')
       \<and> map arquivo (resultados resp) = ['''', ''a.pdf''] \<and> total resp = 5
       \<and> calls is_query s' = 3"
    by (auto simp del: listar_contratos.simps simp add: eval_nat_numeral)
  \<comment> \<open>the search\<close>
  define tk where
    "tk = the (failed_rounds 2 store_flaky (buscar_contratos_try store_flaky ''aluguel'' 3) s)"
  define resp2 where "resp2 = projr (fst (buscar_contratos_try store_flaky ''aluguel'' 3 tk))"
  define t' where "t' = snd (buscar_contratos_try store_flaky ''aluguel'' 3 tk)"
  have q: "''aluguel'' \<noteq> []"
    by simp
  have "failed_rounds 2 store_flaky (buscar_contratos_try store_flaky ''aluguel'' 3) s \<noteq> None"
    unfolding s_def by code_simp
  then have r2:
    "failed_rounds 2 store_flaky (buscar_contratos_try store_flaky ''aluguel'' 3) s = Some tk"
    unfolding tk_def by simp
  have "\<not> isl (fst (buscar_contratos_try store_flaky ''aluguel'' 3 tk))"
    unfolding tk_def s_def by code_simp
  then have t2: "buscar_contratos_try store_flaky ''aluguel'' 3 tk = (Inr resp2, t')"
    unfolding resp2_def t'_def by (simp add: prod_eq_iff)
  have p2: "map score (resultados resp2) = [9, 7, 7] \<and> calls is_query t' = 3"
    unfolding resp2_def t'_def tk_def s_def by code_simp
  have "buscar_contratos (Suc 2) store_flaky ''aluguel'' 3 s = (Inr resp2, t')"
    by (rule retries_follow_failures [where ?s1.0 = s and k = 2 and sk = tk,
          THEN conjunct2, THEN conjunct2, THEN conjunct2, THEN conjunct1, THEN mp])
      (intro conjI q g r2 two t2)
  with p2 have 2: "\<exists>resp s'. buscar_contratos 3 store_flaky ''aluguel'' 3 s = (Inr resp, s')
       \<and> map score (resultados resp) = [9, 7, 7] \<and> calls is_query s' = 3"
    by (auto simp del: buscar_contratos.simps simp add: eval_nat_numeral)
  \<comment> \<open>the file names\<close>
  define uk where "uk = the (failed_rounds 2 store_flaky (listar_arquivos_try store_flaky) s)"
  define fs where "fs = projr (fst (listar_arquivos_try store_flaky uk))"
  define u' where "u' = snd (listar_arquivos_try store_flaky uk)"
  have "failed_rounds 2 store_flaky (listar_arquivos_try store_flaky) s \<noteq> None"
    unfolding s_def by code_simp
  then have r3: "failed_rounds 2 store_flaky (listar_arquivos_try store_flaky) s = Some uk"
    unfolding uk_def by simp
  have "\<not> isl (fst (listar_arquivos_try store_flaky uk))"
    unfolding uk_def s_def by code_simp
  then have t3: "listar_arquivos_try store_flaky uk = (Inr fs, u')"
    unfolding fs_def u'_def by (simp add: prod_eq_iff)
  have p3: "set fs = {''a.pdf'', ''b.pdf''} \<and> calls is_query u' = 3"
    unfolding fs_def u'_def uk_def s_def by code_simp
  have "listar_arquivos (Suc 2) store_flaky s = (Inr fs, u')"
    by (rule retries_follow_failures [where ?s1.0 = s and k = 2 and sk = uk,
          THEN conjunct2, THEN conjunct2, THEN conjunct2, THEN conjunct2, THEN conjunct2,
          THEN conjunct2, THEN conjunct1, THEN mp])
      (intro conjI g r3 two t3)
  with p3 have 3: "\<exists>fs s'. listar_arquivos 3 store_flaky s = (Inr fs, s')
       \<and> set fs = {''a.pdf'', ''b.pdf''} \<and> calls is_query s' = 3"
    by (auto simp del: listar_arquivos.simps simp add: eval_nat_numeral)
  \<comment> \<open>the recursion limit\<close>
  have e0: "fst (listar_contratos_try store_flaky 1 2 s) = Inl ''stale''"
    unfolding s_def by code_simp
  have r': "failed_rounds (Suc 1) store_flaky (listar_contratos_try store_flaky 1 2) s = Some sk"
    unfolding Suc_1 by (rule r)
  have "listar_contratos (Suc 1) store_flaky 1 2 s
      = (Inl (HTTPException 500 (''Erro ao listar contratos: '' @ ''stale'')), sk)"
    by (rule retries_follow_failures [where ?s1.0 = s and sk = sk,
          THEN conjunct2, THEN conjunct2, THEN conjunct1, THEN mp])
      (intro conjI g r' e0)
  then have 4: "fst (listar_contratos 2 store_flaky 1 2 s)
       = Inl (HTTPException 500 ''Erro ao listar contratos: stale'')"
    by (simp del: listar_contratos.simps add: eval_nat_numeral)
  \<comment> \<open>the reconnection that fails\<close>
  define b where "b = loaded store_breaking"
  define bk where
    "bk = the (failed_rounds 1 store_breaking (listar_contratos_try store_breaking 0 10) b)"
  define b2 where "b2 = snd (listar_contratos_try store_breaking 0 10 bk)"
  define b3 where "b3 = snd (conectar_pinecone store_breaking b2)"
  have gb: "sem_conexao store_breaking b = (False, b)"
    unfolding b_def by code_simp
  have "failed_rounds 1 store_breaking (listar_contratos_try store_breaking 0 10) b \<noteq> None"
    unfolding b_def by code_simp
  then have rb:
    "failed_rounds 1 store_breaking (listar_contratos_try store_breaking 0 10) b = Some bk"
    unfolding bk_def by simp
  have "fst (listar_contratos_try store_breaking 0 10 bk) = Inl ''second''"
    unfolding bk_def b_def by code_simp
  then have tb: "listar_contratos_try store_breaking 0 10 bk = (Inl ''second'', b2)"
    unfolding b2_def by (simp add: prod_eq_iff)
  have "\<not> fst (conectar_pinecone store_breaking b2)"
    unfolding b2_def bk_def b_def by code_simp
  then have cb: "conectar_pinecone store_breaking b2 = (False, b3)"
    unfolding b3_def by (simp add: prod_eq_iff)
  have eb: "fst (listar_contratos_try store_breaking 0 10 b) = Inl ''first''"
    unfolding b_def by code_simp
  have one: "(1::nat) \<le> 1"
    by simp
  have "listar_contratos (Suc 1) store_breaking 0 10 b
      = (Inl (HTTPException 500 (''Erro ao listar contratos: '' @ ''first'')), b3)"
    by (rule retries_follow_failures [where ?s1.0 = b and k = 1 and sk = bk
            and e = "''second''" and ?s2.0 = b2,
          THEN conjunct2, THEN conjunct1, THEN mp])
      (intro conjI gb rb one tb cb eb)
  then have 5: "fst (listar_contratos 2 store_breaking 0 10 b)
       = Inl (HTTPException 500 ''Erro ao listar contratos: first'')"
    by (simp del: listar_contratos.simps add: eval_nat_numeral)
  from 1 2 3 4 5 show ?thesis
    unfolding s_def b_def by (intro conjI)
qed

text \<open>Claim C3 as stated fails: when the first two queries of the store fail, one
  invocation of each operation makes three queries, the second and the third being
  automatic retries, and returns a response.\<close>

theorem second_retry:
  "queries_of_run (listar_contratos 3 (query_fails_first 2) 0 10 (loaded (query_fails_first 2)))
     = (True, 3)
   \<and> queries_of_run
        (buscar_contratos 3 (query_fails_first 2) ''aluguel'' 10 (loaded (query_fails_first 2)))
       = (True, 3)
   \<and> queries_of_run (listar_arquivos 3 (query_fails_first 2) (loaded (query_fails_first 2)))
       = (True, 3)"
  by code_simp

end
